theory Spec2Isabelle
  imports Main "HOL-Library.Char_ord" "HOL-Library.List_Lexorder" "HOL-Library.Multiset"
begin

section \<open>The JavaScript values the server computes with\<close>

text \<open>
  \<open>src/server.js\<close> holds two variants of one server: lines 1-360 keep the entries in
  SQLite, lines 361-708 keep them in a Google sheet. Definitions of the first carry the
  suffix \<open>_sqlite\<close>, definitions of the second the suffix \<open>_sheets\<close>.

  A time value is the number of milliseconds since the epoch, an \<open>int\<close>. The readings of
  the clock lie far inside the range of \<open>Date\<close>, where the constructor \<open>new Date(t)\<close> keeps
  \<open>t\<close> and the arithmetic on doubles is exact. A \<open>Date\<close> built from a string may be
  \<open>Invalid Date\<close>: its time value is NaN, and every comparison with it is false.
\<close>

datatype jsdate = DateAt int | InvalidDate

text \<open>\<open>a <= b\<close>, \<open>a < b\<close> on two Date objects, and \<open>a - b\<close> (None is NaN).\<close>

fun date_le :: "jsdate \<Rightarrow> jsdate \<Rightarrow> bool" where
  "date_le (DateAt a) (DateAt b) = (a \<le> b)"
| "date_le _ _ = False"

fun date_lt :: "jsdate \<Rightarrow> jsdate \<Rightarrow> bool" where
  "date_lt (DateAt a) (DateAt b) = (a < b)"
| "date_lt _ _ = False"

fun date_minus :: "jsdate \<Rightarrow> jsdate \<Rightarrow> int option" where
  "date_minus (DateAt a) (DateAt b) = Some (a - b)"
| "date_minus _ _ = None"

text \<open>\<open>x > c\<close> for a number \<open>x\<close> that may be NaN.\<close>

fun num_gt :: "int option \<Rightarrow> int \<Rightarrow> bool" where
  "num_gt (Some x) c = (x > c)"
| "num_gt None c = False"

text \<open>
  What the platform supplies and the repository does not define: the parser behind
  \<open>new Date(string)\<close>, \<open>Date.prototype.toISOString\<close>, SQLite's \<open>CURRENT_TIMESTAMP\<close> and the
  offset of local time from UTC in milliseconds (taken as constant: no daylight saving
  change between the two instants a request compares).
\<close>

record platform =
  parseDate :: "string \<Rightarrow> jsdate"
  toISOString :: "int \<Rightarrow> string"
  current_timestamp :: "int \<Rightarrow> string"
  tzOffset :: int

text \<open>The clock: \<open>clock k\<close> is the \<open>k\<close>-th reading (\<open>new Date()\<close>, \<open>Date.now()\<close>) of a run.\<close>

type_synonym clock = "nat \<Rightarrow> int"

section \<open>Entries\<close>

text \<open>
  A row of the table \<open>entries\<close> (lines 32-38), and the object built from a sheet row
  (lines 429-435). The id is an integer in SQLite and a string of digits in the sheet.
\<close>

record 'i entry =
  entry_id :: 'i
  url :: string
  event_date :: string
  created_at :: string
  emailed :: int

section \<open>Link previews and the email\<close>

text \<open>
  The outcome of \<open>getLinkPreview(url)\<close>: it throws, or it yields an object whose \<open>title\<close>,
  \<open>description\<close> and \<open>images\<close> may be missing.
\<close>

datatype preview = PreviewThrows
  | Preview (p_title: "string option") (p_description: "string option")
      (p_images: "string list option")

text \<open>\<open>s || d\<close> on a string that may be undefined: the empty string is falsy too.\<close>

fun or_else :: "string option \<Rightarrow> string \<Rightarrow> string" where
  "or_else None d = d"
| "or_else (Some s) d = (if s = [] then d else s)"

text \<open>\<open>preview.images?.[0] || null\<close>\<close>

fun first_image :: "string list option \<Rightarrow> string option" where
  "first_image None = None"
| "first_image (Some []) = None"
| "first_image (Some (i # _)) = (if i = [] then None else Some i)"

text \<open>
  The enriched entry of the sheet variant has a title and a description (lines 473-483);
  the SQLite variant adds an image (lines 108-121).
\<close>

record 'i enriched = "'i entry" +
  title :: string
  description :: string

record 'i enriched_img = "'i enriched" +
  image :: "string option"

text \<open>
  The email handed to the provider. Its HTML is a rendering of the enriched entries, in
  their order, and of the issue date; its subject holds their number. The model keeps
  these data instead of the markup.
\<close>

record 'e email =
  items :: "'e list"
  issueDate :: string

datatype send_result = Delivered | ReturnedError string | SendThrows string

text \<open>What a cycle logs last.\<close>

datatype log = ReturnedEarly | NewsletterSent | ConditionsNotMet | CronError string

section \<open>The SQLite variant\<close>

text \<open>
  The database: the table \<open>entries\<close> in rowid order, the counter of \<open>AUTOINCREMENT\<close>, and
  the value of the key \<open>last_email_sent\<close> of the table \<open>meta\<close>.
\<close>

record db =
  entries :: "int entry list"
  seq :: int
  last_email_sent :: "string option"

text \<open>Statements whose failure the source handles; \<open>f op\<close> says that \<open>op\<close> fails.\<close>

datatype sqlite_op = SelectUnemailed | SelectMeta | InsertEntry

definition getLastEmailSent_sqlite ::
    "platform \<Rightarrow> (sqlite_op \<Rightarrow> bool) \<Rightarrow> db \<Rightarrow> jsdate option" where
  "getLastEmailSent_sqlite P f d =
     (if f SelectMeta then None
      else case last_email_sent d of
             Some v \<Rightarrow> Some (parseDate P v)
           | None \<Rightarrow> None)"

definition updateLastEmailSent_sqlite :: "platform \<Rightarrow> int \<Rightarrow> db \<Rightarrow> db" where
  "updateLastEmailSent_sqlite P t d = d\<lparr>last_email_sent := Some (toISOString P t)\<rparr>"

text \<open>
  \<open>SELECT * FROM entries WHERE emailed = 0 ORDER BY event_date ASC\<close>: the column is TEXT,
  compared byte by byte. SQL leaves the order of rows with equal keys open; the model
  keeps them in table order.
\<close>

definition getUnemailedEntries_sqlite ::
    "(sqlite_op \<Rightarrow> bool) \<Rightarrow> db \<Rightarrow> string + int entry list" where
  "getUnemailedEntries_sqlite f d =
     (if f SelectUnemailed then Inl ''SQLITE_ERROR''
      else Inr (sort_key event_date (filter (\<lambda>e. emailed e = 0) (entries d))))"

definition markEntriesEmailed_sqlite :: "int list \<Rightarrow> db \<Rightarrow> db" where
  "markEntriesEmailed_sqlite ids d =
     d\<lparr>entries := map (\<lambda>e. if entry_id e \<in> set ids then e\<lparr>emailed := 1\<rparr> else e) (entries d)\<rparr>"

definition enrich_sqlite :: "(string \<Rightarrow> preview) \<Rightarrow> int entry \<Rightarrow> int enriched_img" where
  "enrich_sqlite getLinkPreview e =
     (case getLinkPreview (url e) of
        Preview t ds imgs \<Rightarrow>
          \<lparr>entry_id = entry_id e, url = url e, event_date = event_date e,
           created_at = created_at e, emailed = emailed e,
           title = or_else t (url e), description = or_else ds [],
           image = first_image imgs\<rparr>
      | PreviewThrows \<Rightarrow>
          \<lparr>entry_id = entry_id e, url = url e, event_date = event_date e,
           created_at = created_at e, emailed = emailed e,
           title = url e, description = [], image = None\<rparr>)"

text \<open>
  The email of lines 103-211: the previews are fetched for all entries, each on its own, and
  \<open>Promise.all\<close> keeps the order of the entries.
\<close>

definition digest_sqlite ::
    "platform \<Rightarrow> (string \<Rightarrow> preview) \<Rightarrow> int \<Rightarrow> int entry list \<Rightarrow> int enriched_img email" where
  "digest_sqlite P getLinkPreview t es =
     (let enriched = map (enrich_sqlite getLinkPreview) es;
          issue = take 10 (toISOString P t)
      in \<lparr>items = enriched, issueDate = issue\<rparr>)"

text \<open>
  \<open>sendNewsletter\<close> (lines 99-232): the emails the provider accepted, and whether it
  returns (\<open>Inr\<close>) or throws (\<open>Inl\<close>). \<open>t\<close> is the clock reading of line 126.
\<close>

definition sendNewsletter_sqlite ::
    "platform \<Rightarrow> (string \<Rightarrow> preview) \<Rightarrow> (int enriched_img email \<Rightarrow> send_result) \<Rightarrow> int \<Rightarrow>
     int entry list \<Rightarrow> int enriched_img email list \<times> (string + unit)" where
  "sendNewsletter_sqlite P getLinkPreview send t es =
     (if length es = 0 then ([], Inr ())
      else
        let mail = digest_sqlite P getLinkPreview t es
        in case send mail of
             Delivered \<Rightarrow> ([mail], Inr ())
           | ReturnedError err \<Rightarrow> ([], Inl err)
           | SendThrows err \<Rightarrow> ([], Inl err))"

definition conditionA_sqlite :: "platform \<Rightarrow> int \<Rightarrow> 'i entry list \<Rightarrow> bool" where
  "conditionA_sqlite P now es =
     (let sevenDaysFromNow = DateAt (now + 7 * 24 * 60 * 60 * 1000)
      in list_ex (\<lambda>e. date_le (parseDate P (event_date e)) sevenDaysFromNow) es)"

definition conditionB_sqlite :: "'i entry list \<Rightarrow> bool" where
  "conditionB_sqlite es = (length es \<ge> 7)"

definition conditionC_sqlite :: "int \<Rightarrow> jsdate option \<Rightarrow> bool" where
  "conditionC_sqlite now lastSent =
     (case lastSent of
        None \<Rightarrow> True
      | Some l \<Rightarrow> num_gt (date_minus (DateAt now) l) (21 * 24 * 60 * 60 * 1000))"

text \<open>Lines 262-265: send, then mark the entries and write the ledger.\<close>

definition send_and_mark_sqlite ::
    "platform \<Rightarrow> (string \<Rightarrow> preview) \<Rightarrow> (int enriched_img email \<Rightarrow> send_result) \<Rightarrow> clock \<Rightarrow>
     int entry list \<Rightarrow> db \<Rightarrow> db \<times> int enriched_img email list \<times> log" where
  "send_and_mark_sqlite P getLinkPreview send clock es d =
     (case sendNewsletter_sqlite P getLinkPreview send (clock 1) es of
        (out, Inl err) \<Rightarrow> (d, out, CronError err)
      | (out, Inr _) \<Rightarrow>
          (updateLastEmailSent_sqlite P (clock 2)
             (markEntriesEmailed_sqlite (map entry_id es) d), out, NewsletterSent))"

text \<open>
  \<open>evaluateAndSend\<close> (lines 239-272): the database after the cycle, the emails the
  provider accepted, and the last line logged.
\<close>

definition evaluateAndSend_sqlite ::
    "platform \<Rightarrow> (sqlite_op \<Rightarrow> bool) \<Rightarrow> (string \<Rightarrow> preview) \<Rightarrow>
     (int enriched_img email \<Rightarrow> send_result) \<Rightarrow> clock \<Rightarrow> db \<Rightarrow>
     db \<times> int enriched_img email list \<times> log" where
  "evaluateAndSend_sqlite P f getLinkPreview send clock d =
     (case getUnemailedEntries_sqlite f d of
        Inl err \<Rightarrow> (d, [], CronError err)
      | Inr es \<Rightarrow>
          if length es = 0 then (d, [], ReturnedEarly)
          else
            let now = clock 0;
                conditionA = conditionA_sqlite P now es;
                conditionB = conditionB_sqlite es;
                lastSent = getLastEmailSent_sqlite P f d;
                conditionC = conditionC_sqlite now lastSent
            in if conditionA \<or> conditionB \<or> conditionC
               then send_and_mark_sqlite P getLinkPreview send clock es d
               else (d, [], ConditionsNotMet))"

text \<open>
  The verdict of the cycle on the pending entries \<open>es\<close>: whether \<open>evaluateAndSend\<close>
  reaches the call of \<open>sendNewsletter\<close>. The conditions read the dates of the entries
  and their number, whatever the type of the id.
\<close>

definition shouldSend_sqlite :: "platform \<Rightarrow> int \<Rightarrow> jsdate option \<Rightarrow> 'i entry list \<Rightarrow> bool" where
  "shouldSend_sqlite P now lastSent es =
     (if length es = 0 then False
      else conditionA_sqlite P now es \<or> conditionB_sqlite es \<or> conditionC_sqlite now lastSent)"

section \<open>The sheet variant\<close>

text \<open>
  \<open>Array.prototype.sort\<close> with a comparator: the sort is stable, and a comparator result
  NaN counts as 0. ECMAScript fixes the result for a comparator that is a consistent
  ordering, and then every stable sort returns the list that this insertion sort
  returns. Where the comparator is not consistent (a date is invalid) the order is left
  to the engine; the statements on order below are made for valid dates.
\<close>

fun js_insert :: "('a \<Rightarrow> 'a \<Rightarrow> int option) \<Rightarrow> 'a \<Rightarrow> 'a list \<Rightarrow> 'a list" where
  "js_insert cmp x [] = [x]"
| "js_insert cmp x (y # ys) =
     (if num_gt (cmp x y) 0 then y # js_insert cmp x ys else x # y # ys)"

definition js_sort :: "('a \<Rightarrow> 'a \<Rightarrow> int option) \<Rightarrow> 'a list \<Rightarrow> 'a list" where
  "js_sort cmp xs = foldr (js_insert cmp) xs []"

text \<open>
  The state: the rows of the range \<open>entries!A2:E\<close> in sheet order, each read as the five
  cells that the submit endpoint appends (the cell \<open>emailed\<close> as the number it holds), and
  the variable \<open>lastEmailSent\<close> of line 397.
\<close>

record sheet =
  rows :: "string entry list"
  lastEmailSent :: "jsdate option"

text \<open>Calls of the Sheets API; \<open>f op\<close> says that \<open>op\<close> throws.\<close>

datatype sheets_op = GetRows | GetRowsToMark | UpdateRows | GetUrls | AppendRow

definition getLastEmailSent_sheets :: "sheet \<Rightarrow> jsdate option" where
  "getLastEmailSent_sheets s = lastEmailSent s"

definition updateLastEmailSent_sheets :: "int \<Rightarrow> sheet \<Rightarrow> sheet" where
  "updateLastEmailSent_sheets t s = s\<lparr>lastEmailSent := Some (DateAt t)\<rparr>"

definition getUnemailedEntries_sheets ::
    "platform \<Rightarrow> (sheets_op \<Rightarrow> bool) \<Rightarrow> sheet \<Rightarrow> string + string entry list" where
  "getUnemailedEntries_sheets P f s =
     (if f GetRows then Inl ''Sheets error''
      else Inr (js_sort
                  (\<lambda>a b. date_minus (parseDate P (event_date a)) (parseDate P (event_date b)))
                  (filter (\<lambda>r. emailed r = 0) (rows s))))"

definition markEntriesEmailed_sheets ::
    "string list \<Rightarrow> (sheets_op \<Rightarrow> bool) \<Rightarrow> sheet \<Rightarrow> string + sheet" where
  "markEntriesEmailed_sheets ids f s =
     (if f GetRowsToMark then Inl ''Sheets error''
      else
        let updated = map (\<lambda>r. if entry_id r \<in> set ids then r\<lparr>emailed := 1\<rparr> else r) (rows s)
        in if f UpdateRows then Inl ''Sheets error''
           else Inr (s\<lparr>rows := updated\<rparr>))"

definition enrich_sheets :: "(string \<Rightarrow> preview) \<Rightarrow> string entry \<Rightarrow> string enriched" where
  "enrich_sheets getLinkPreview e =
     (case getLinkPreview (url e) of
        Preview t ds imgs \<Rightarrow>
          \<lparr>entry_id = entry_id e, url = url e, event_date = event_date e,
           created_at = created_at e, emailed = emailed e,
           title = or_else t (url e), description = or_else ds []\<rparr>
      | PreviewThrows \<Rightarrow>
          \<lparr>entry_id = entry_id e, url = url e, event_date = event_date e,
           created_at = created_at e, emailed = emailed e,
           title = url e, description = []\<rparr>)"

text \<open>
  The email of lines 469-565: the previews are fetched for all entries, each on its own, and
  \<open>Promise.all\<close> keeps the order of the entries.
\<close>

definition digest_sheets ::
    "platform \<Rightarrow> (string \<Rightarrow> preview) \<Rightarrow> int \<Rightarrow> string entry list \<Rightarrow> string enriched email" where
  "digest_sheets P getLinkPreview t es =
     (let enriched = map (enrich_sheets getLinkPreview) es;
          issue = take 10 (toISOString P t)
      in \<lparr>items = enriched, issueDate = issue\<rparr>)"

text \<open>\<open>sendNewsletter\<close> (lines 466-577); \<open>t\<close> is the clock reading of line 488.\<close>

definition sendNewsletter_sheets ::
    "platform \<Rightarrow> (string \<Rightarrow> preview) \<Rightarrow> (string enriched email \<Rightarrow> send_result) \<Rightarrow> int \<Rightarrow>
     string entry list \<Rightarrow> string enriched email list \<times> (string + unit)" where
  "sendNewsletter_sheets P getLinkPreview send t es =
     (if length es = 0 then ([], Inr ())
      else
        let mail = digest_sheets P getLinkPreview t es
        in case send mail of
             Delivered \<Rightarrow> ([mail], Inr ())
           | ReturnedError err \<Rightarrow> ([], Inl err)
           | SendThrows err \<Rightarrow> ([], Inl err))"

definition conditionA_sheets :: "platform \<Rightarrow> int \<Rightarrow> 'i entry list \<Rightarrow> bool" where
  "conditionA_sheets P now es =
     (let sevenDaysFromNow = DateAt (now + 7 * 24 * 60 * 60 * 1000)
      in list_ex (\<lambda>e. date_le (parseDate P (event_date e)) sevenDaysFromNow) es)"

definition conditionB_sheets :: "'i entry list \<Rightarrow> bool" where
  "conditionB_sheets es = (length es \<ge> 7)"

definition conditionC_sheets :: "int \<Rightarrow> jsdate option \<Rightarrow> bool" where
  "conditionC_sheets now lastSent =
     (case lastSent of
        None \<Rightarrow> True
      | Some l \<Rightarrow> num_gt (date_minus (DateAt now) l) (21 * 24 * 60 * 60 * 1000))"

text \<open>Lines 604-607: send, then mark the entries and set the ledger.\<close>

definition send_and_mark_sheets ::
    "platform \<Rightarrow> (sheets_op \<Rightarrow> bool) \<Rightarrow> (string \<Rightarrow> preview) \<Rightarrow>
     (string enriched email \<Rightarrow> send_result) \<Rightarrow> clock \<Rightarrow> string entry list \<Rightarrow> sheet \<Rightarrow>
     sheet \<times> string enriched email list \<times> log" where
  "send_and_mark_sheets P f getLinkPreview send clock es s =
     (case sendNewsletter_sheets P getLinkPreview send (clock 1) es of
        (out, Inl err) \<Rightarrow> (s, out, CronError err)
      | (out, Inr _) \<Rightarrow>
          (case markEntriesEmailed_sheets (map entry_id es) f s of
             Inl err \<Rightarrow> (s, out, CronError err)
           | Inr s' \<Rightarrow> (updateLastEmailSent_sheets (clock 2) s', out, NewsletterSent)))"

text \<open>\<open>evaluateAndSend\<close> (lines 582-614).\<close>

definition evaluateAndSend_sheets ::
    "platform \<Rightarrow> (sheets_op \<Rightarrow> bool) \<Rightarrow> (string \<Rightarrow> preview) \<Rightarrow>
     (string enriched email \<Rightarrow> send_result) \<Rightarrow> clock \<Rightarrow> sheet \<Rightarrow>
     sheet \<times> string enriched email list \<times> log" where
  "evaluateAndSend_sheets P f getLinkPreview send clock s =
     (case getUnemailedEntries_sheets P f s of
        Inl err \<Rightarrow> (s, [], CronError err)
      | Inr es \<Rightarrow>
          if length es = 0 then (s, [], ReturnedEarly)
          else
            let now = clock 0;
                conditionA = conditionA_sheets P now es;
                conditionB = conditionB_sheets es;
                lastSent = getLastEmailSent_sheets s;
                conditionC = conditionC_sheets now lastSent
            in if conditionA \<or> conditionB \<or> conditionC
               then send_and_mark_sheets P f getLinkPreview send clock es s
               else (s, [], ConditionsNotMet))"

definition shouldSend_sheets ::
    "platform \<Rightarrow> int \<Rightarrow> jsdate option \<Rightarrow> 'i entry list \<Rightarrow> bool" where
  "shouldSend_sheets P now lastSent es =
     (if length es = 0 then False
      else conditionA_sheets P now es \<or> conditionB_sheets es \<or> conditionC_sheets now lastSent)"

section \<open>The submit endpoint\<close>

text \<open>
  The body of a request: the fields \<open>url\<close> and \<open>date\<close> of the form, each a string or
  missing. A character is a code unit below 256; of these \<open>String.prototype.trim\<close>
  removes the six ASCII ones below and the no-break space.
\<close>

record request =
  req_url :: "string option"
  req_date :: "string option"

definition is_space :: "char \<Rightarrow> bool" where
  "is_space c = (c \<in> set [CHR 0x09, CHR 0x0A, CHR 0x0B, CHR 0x0C, CHR 0x0D, CHR 0x20, CHR 0xA0])"

definition js_trim :: "string \<Rightarrow> string" where
  "js_trim s = rev (dropWhile is_space (rev (dropWhile is_space s)))"

text \<open>\<open>setHours(0, 0, 0, 0)\<close>: the start of the local day of the date.\<close>

fun setHours0 :: "platform \<Rightarrow> jsdate \<Rightarrow> jsdate" where
  "setHours0 P (DateAt t) = DateAt (t - (t + tzOffset P) mod (24 * 60 * 60 * 1000))"
| "setHours0 P InvalidDate = InvalidDate"

text \<open>\<open>res.json({success: true, id})\<close>, or \<open>res.status(n).json({error: msg})\<close>.\<close>

datatype 'i response = Success 'i | Status nat string

text \<open>Lines 294-304 and 636-646: is the submitted date rejected as past?\<close>

definition date_in_past :: "platform \<Rightarrow> int \<Rightarrow> string \<Rightarrow> bool" where
  "date_in_past P now date =
     (let today = setHours0 P (DateAt now);
          submittedDate = setHours0 P (parseDate P date)
      in date_lt submittedDate today)"

datatype sqlite_error = UniqueFailed | OtherError

text \<open>
  \<open>INSERT INTO entries (url, event_date) VALUES (?, ?)\<close> under the schema of lines 32-38:
  \<open>url\<close> is UNIQUE, the id is the next value of \<open>AUTOINCREMENT\<close>, \<open>created_at\<close> and \<open>emailed\<close>
  take their defaults.
\<close>

definition insert_sqlite ::
    "platform \<Rightarrow> (sqlite_op \<Rightarrow> bool) \<Rightarrow> int \<Rightarrow> db \<Rightarrow> string \<Rightarrow> string \<Rightarrow>
     sqlite_error + db \<times> int" where
  "insert_sqlite P f t d u dt =
     (if f InsertEntry then Inl OtherError
      else if u \<in> set (map url (entries d)) then Inl UniqueFailed
      else
        let lastID = fold max (map entry_id (entries d)) (seq d) + 1;
            row = \<lparr>entry_id = lastID, url = u, event_date = dt,
                   created_at = current_timestamp P t, emailed = 0\<rparr>
        in Inr (d\<lparr>entries := entries d @ [row], seq := lastID\<rparr>, lastID))"

text \<open>\<open>app.post("/submit")\<close> of lines 285-322.\<close>

definition submit_sqlite ::
    "platform \<Rightarrow> (sqlite_op \<Rightarrow> bool) \<Rightarrow> clock \<Rightarrow> db \<Rightarrow> request \<Rightarrow> db \<times> int response" where
  "submit_sqlite P f clock d req =
     (case (map_option js_trim (req_url req), req_date req) of
        (Some u, Some date) \<Rightarrow>
          if u = [] \<or> date = [] then (d, Status 400 ''Missing url or date'')
          else if date_in_past P (clock 0) date
          then (d, Status 400 ''Date cannot be in the past'')
          else (case insert_sqlite P f (clock 1) d u date of
                  Inl UniqueFailed \<Rightarrow> (d, Status 409 ''URL already submitted'')
                | Inl OtherError \<Rightarrow> (d, Status 500 ''DB error'')
                | Inr (d', lastID) \<Rightarrow> (d', Success lastID))
      | _ \<Rightarrow> (d, Status 400 ''Missing url or date''))"

text \<open>\<open>Date.now().toString()\<close>: the decimal digits of an integer.\<close>

fun digits :: "nat \<Rightarrow> string" where
  "digits n = (if n < 10 then [''0123456789'' ! n]
               else digits (n div 10) @ [''0123456789'' ! (n mod 10)])"

declare digits.simps [simp del]

definition toString :: "int \<Rightarrow> string" where
  "toString i = (if i < 0 then CHR ''-'' # digits (nat (- i)) else digits (nat i))"

text \<open>\<open>app.post("/submit")\<close> of lines 627-677.\<close>

definition submit_sheets ::
    "platform \<Rightarrow> (sheets_op \<Rightarrow> bool) \<Rightarrow> clock \<Rightarrow> sheet \<Rightarrow> request \<Rightarrow>
     sheet \<times> string response" where
  "submit_sheets P f clock s req =
     (case (map_option js_trim (req_url req), req_date req) of
        (Some u, Some date) \<Rightarrow>
          if u = [] \<or> date = [] then (s, Status 400 ''Missing url or date'')
          else if date_in_past P (clock 0) date
          then (s, Status 400 ''Date cannot be in the past'')
          else if f GetUrls then (s, Status 500 ''Sheets error'')
          else
            let urls = map url (rows s)
            in if u \<in> set urls then (s, Status 409 ''URL already submitted'')
               else
                 let new_id = toString (clock 1)
                 in if f AppendRow then (s, Status 500 ''Sheets error'')
                    else (s\<lparr>rows := rows s @
                              [\<lparr>entry_id = new_id, url = u, event_date = date,
                                created_at = toISOString P (clock 2), emailed = 0\<rparr>]\<rparr>,
                          Success new_id)
      | _ \<Rightarrow> (s, Status 400 ''Missing url or date''))"

section \<open>An instance of the platform\<close>

text \<open>
  Node with a constant offset of local time. The parser reads two forms of the ECMAScript
  date-time format: the date-only form \<open>YYYY-MM-DD\<close>, taken as midnight UTC, and the form
  \<open>YYYY-MM-DDTHH:mm:ss.sssZ\<close> that \<open>toISOString\<close> writes. The month runs from 01 to 12 and
  the day from 01 to 31 (a day past the end of the month runs into the next one, as in
  V8). Every other string is Invalid Date in this instance. It serves to evaluate the
  definitions on concrete inputs; the theorems hold for every platform.
\<close>

definition digit_val :: "char \<Rightarrow> nat option" where
  "digit_val c =
     (let n = (of_char c :: nat) in if 48 \<le> n \<and> n \<le> 57 then Some (n - 48) else None)"

fun number_from :: "nat \<Rightarrow> string \<Rightarrow> nat option" where
  "number_from acc [] = Some acc"
| "number_from acc (c # cs) =
     (case digit_val c of None \<Rightarrow> None | Some v \<Rightarrow> number_from (10 * acc + v) cs)"

text \<open>Days from 1970-01-01 to the day \<open>d\<close> of month \<open>m\<close> of year \<open>y\<close> (Gregorian).\<close>

definition days_from_civil :: "int \<Rightarrow> int \<Rightarrow> int \<Rightarrow> int" where
  "days_from_civil y m d =
     (let y' = (if m \<le> 2 then y - 1 else y);
          era = y' div 400;
          yoe = y' - era * 400;
          mp = (m + 9) mod 12;
          doy = (153 * mp + 2) div 5 + d - 1;
          doe = yoe * 365 + yoe div 4 - yoe div 100 + doy
      in era * 146097 + doe - 719468)"

text \<open>The time value of midnight UTC of a text \<open>YYYY-MM-DD\<close>.\<close>

definition parse_day :: "string \<Rightarrow> int option" where
  "parse_day s =
     (if length s = 10 \<and> s ! 4 = CHR ''-'' \<and> s ! 7 = CHR ''-'' then
        (case (number_from 0 (take 4 s), number_from 0 (take 2 (drop 5 s)),
               number_from 0 (drop 8 s)) of
           (Some y, Some m, Some d) \<Rightarrow>
             if 1 \<le> m \<and> m \<le> 12 \<and> 1 \<le> d \<and> d \<le> 31
             then Some ((days_from_civil (int y) (int m) 1 + int d - 1) * 86400000)
             else None
         | _ \<Rightarrow> None)
      else None)"

text \<open>The milliseconds into the day of a text \<open>HH:mm:ss.sssZ\<close>.\<close>

definition parse_time :: "string \<Rightarrow> int option" where
  "parse_time s =
     (if length s = 13 \<and> s ! 2 = CHR '':'' \<and> s ! 5 = CHR '':'' \<and> s ! 8 = CHR ''.'' \<and>
         s ! 12 = CHR ''Z'' then
        (case (number_from 0 (take 2 s), number_from 0 (take 2 (drop 3 s)),
               number_from 0 (take 2 (drop 6 s)), number_from 0 (take 3 (drop 9 s))) of
           (Some h, Some mi, Some sec, Some ms) \<Rightarrow>
             if mi \<le> 59 \<and> sec \<le> 59 \<and> (h \<le> 23 \<or> h = 24 \<and> mi = 0 \<and> sec = 0 \<and> ms = 0)
             then Some (int h * 3600000 + int mi * 60000 + int sec * 1000 + int ms)
             else None
         | _ \<Rightarrow> None)
      else None)"

definition parse_iso :: "string \<Rightarrow> jsdate" where
  "parse_iso s =
     (if length s = 10 then
        (case parse_day s of Some day \<Rightarrow> DateAt day | None \<Rightarrow> InvalidDate)
      else if length s = 24 \<and> s ! 10 = CHR ''T'' then
        (case (parse_day (take 10 s), parse_time (drop 11 s)) of
           (Some day, Some ms) \<Rightarrow> DateAt (day + ms)
         | _ \<Rightarrow> InvalidDate)
      else InvalidDate)"

text \<open>Year, month and day of the day that lies \<open>z\<close> days after 1970-01-01.\<close>

definition civil_from_days :: "int \<Rightarrow> int \<times> int \<times> int" where
  "civil_from_days z =
     (let z' = z + 719468;
          era = z' div 146097;
          doe = z' - era * 146097;
          yoe = (doe - doe div 1460 + doe div 36524 - doe div 146096) div 365;
          doy = doe - (365 * yoe + yoe div 4 - yoe div 100);
          mp = (5 * doy + 2) div 153;
          d = doy - (153 * mp + 2) div 5 + 1;
          m = (if mp < 10 then mp + 3 else mp - 9);
          y = yoe + era * 400
      in (if m \<le> 2 then y + 1 else y, m, d))"

definition pad :: "nat \<Rightarrow> int \<Rightarrow> string" where
  "pad w i = (let ds = digits (nat i) in replicate (w - length ds) CHR ''0'' @ ds)"

definition year_text :: "int \<Rightarrow> string" where
  "year_text y =
     (if 0 \<le> y \<and> y \<le> 9999 then pad 4 y
      else if y < 0 then CHR ''-'' # pad 6 (- y) else CHR ''+'' # pad 6 y)"

definition iso_text :: "int \<Rightarrow> string" where
  "iso_text t =
     (let ms = t mod 86400000;
          (y, m, d) = civil_from_days (t div 86400000)
      in year_text y @ ''-'' @ pad 2 m @ ''-'' @ pad 2 d @ ''T'' @
         pad 2 (ms div 3600000) @ '':'' @ pad 2 (ms div 60000 mod 60) @ '':'' @
         pad 2 (ms div 1000 mod 60) @ ''.'' @ pad 3 (ms mod 1000) @ ''Z'')"

definition sql_text :: "int \<Rightarrow> string" where
  "sql_text t =
     (let ms = t mod 86400000;
          (y, m, d) = civil_from_days (t div 86400000)
      in pad 4 y @ ''-'' @ pad 2 m @ ''-'' @ pad 2 d @ '' '' @
         pad 2 (ms div 3600000) @ '':'' @ pad 2 (ms div 60000 mod 60) @ '':'' @
         pad 2 (ms div 1000 mod 60))"

definition node :: "int \<Rightarrow> platform" where
  "node offset =
     \<lparr>parseDate = parse_iso, toISOString = iso_text, current_timestamp = sql_text,
      tzOffset = offset\<rparr>"

section \<open>The order of the digest\<close>

text \<open>
  The time value of the date of an entry, for entries whose date parses (0 stands in for
  the others, about which nothing is stated).
\<close>

definition time_of :: "platform \<Rightarrow> ('i, 'z) entry_scheme \<Rightarrow> int" where
  "time_of P e = (case parseDate P (event_date e) of DateAt t \<Rightarrow> t | InvalidDate \<Rightarrow> 0)"

text \<open>
  The order in the words of the specification: ascending by event date, and ascending
  by id among entries of equal date.
\<close>

definition spec_order :: "platform \<Rightarrow> ('i :: linorder, 'z) entry_scheme list \<Rightarrow> bool" where
  "spec_order P xs =
     sorted_wrt (\<lambda>a b. date_lt (parseDate P (event_date a)) (parseDate P (event_date b)) \<or>
                       (parseDate P (event_date a) = parseDate P (event_date b) \<and>
                        entry_id a \<le> entry_id b)) xs"

section \<open>Concrete states\<close>

text \<open>
  States and inputs on which the statements below are evaluated. The clock stands at
  2025-01-10, 09:00 UTC, and advances by a millisecond between two readings.
\<close>

definition nine_am :: clock where
  "nine_am k = 1736499600000 + int k"

definition no_fault :: "'op \<Rightarrow> bool" where
  "no_fault op = False"

definition no_preview :: "string \<Rightarrow> preview" where
  "no_preview u = PreviewThrows"

definition empty_db :: db where
  "empty_db = \<lparr>entries = [], seq = 0, last_email_sent = None\<rparr>"

definition empty_sheet :: sheet where
  "empty_sheet = \<lparr>rows = [], lastEmailSent = None\<rparr>"

text \<open>
  A pending entry two days ahead, one a week overdue, and seven that lie months ahead;
  the same for the sheet.
\<close>

definition cfp :: "int entry" where
  "cfp = \<lparr>entry_id = 1, url = ''https://dh.example/cfp'', event_date = ''2025-01-12'',
           created_at = ''2025-01-02 08:00:00'', emailed = 0\<rparr>"

definition overdue :: "int entry" where
  "overdue = \<lparr>entry_id = 2, url = ''https://dh.example/talk'', event_date = ''2025-01-03'',
               created_at = ''2025-01-02 08:05:00'', emailed = 0\<rparr>"

definition far :: "int \<Rightarrow> int entry" where
  "far k = \<lparr>entry_id = k, url = ''https://dh.example/school/'' @ toString k,
             event_date = ''2025-06-01'', created_at = ''2025-01-02 08:10:00'', emailed = 0\<rparr>"

definition cfp_row :: "string entry" where
  "cfp_row = \<lparr>entry_id = ''1735804800000'', url = ''https://dh.example/cfp'',
               event_date = ''2025-01-12'', created_at = ''2025-01-02T08:00:00.000Z'',
               emailed = 0\<rparr>"

definition overdue_row :: "string entry" where
  "overdue_row = \<lparr>entry_id = ''1735805100000'', url = ''https://dh.example/talk'',
                   event_date = ''2025-01-03'', created_at = ''2025-01-02T08:05:00.000Z'',
                   emailed = 0\<rparr>"

definition far_row :: "int \<Rightarrow> string entry" where
  "far_row k = \<lparr>entry_id = toString (1735805400000 + k),
                 url = ''https://dh.example/school/'' @ toString k,
                 event_date = ''2025-06-01'', created_at = ''2025-01-02T08:10:00.000Z'',
                 emailed = 0\<rparr>"

definition db_of :: "int entry list \<Rightarrow> string option \<Rightarrow> db" where
  "db_of es l = \<lparr>entries = es, seq = int (length es), last_email_sent = l\<rparr>"

definition sheet_of :: "string entry list \<Rightarrow> jsdate option \<Rightarrow> sheet" where
  "sheet_of rs l = \<lparr>rows = rs, lastEmailSent = l\<rparr>"

text \<open>A preview fetcher that fails on one page and reads a title from every other.\<close>

definition flaky_preview :: "string \<Rightarrow> preview" where
  "flaky_preview u =
     (if u = ''https://dh.example/cfp'' then PreviewThrows
      else Preview (Some ''A talk'') None None)"

text \<open>
  Two sheet rows for the same day, the row with the later id above the other, and a
  third row for the same day as \<open>cfp_row\<close>, below it and with an earlier id.
\<close>

definition second_row :: "string entry" where
  "second_row = \<lparr>entry_id = ''1736000000002'', url = ''https://dh.example/b'',
                  event_date = ''2025-01-12'', created_at = ''2025-01-04T14:13:20.002Z'',
                  emailed = 0\<rparr>"

definition first_row :: "string entry" where
  "first_row = \<lparr>entry_id = ''1736000000001'', url = ''https://dh.example/a'',
                 event_date = ''2025-01-12'', created_at = ''2025-01-04T14:13:20.001Z'',
                 emailed = 0\<rparr>"

definition sent_row :: "string entry" where
  "sent_row = \<lparr>entry_id = ''1735000000000'', url = ''https://dh.example/old'',
                event_date = ''2025-01-02'', created_at = ''2024-12-24T00:26:40.000Z'',
                emailed = 1\<rparr>"

definition sent_entry :: "int entry" where
  "sent_entry = \<lparr>entry_id = 3, url = ''https://dh.example/old'', event_date = ''2025-01-02'',
                  created_at = ''2024-12-24 00:26:40'', emailed = 1\<rparr>"

text \<open>
  Requests: a call for papers for 12 January, the same URL with blanks and a tab around
  it, and an event for today, 10 January. Noon of 10 January at an offset of five hours
  west of UTC is 17:00 UTC.
\<close>

definition plain_request :: request where
  "plain_request = \<lparr>req_url = Some ''https://dh.example/cfp'', req_date = Some ''2025-01-12''\<rparr>"

definition padded_request :: request where
  "padded_request =
     \<lparr>req_url = Some ([CHR 0x20, CHR 0x20] @ ''https://dh.example/cfp'' @ [CHR 0x20, CHR 0x09]),
      req_date = Some ''2025-01-13''\<rparr>"

definition today_request :: request where
  "today_request = \<lparr>req_url = Some ''https://dh.example/cfp'', req_date = Some ''2025-01-10''\<rparr>"

definition noon_west :: clock where
  "noon_west k = 1736528400000 + int k"

text \<open>The stores after \<open>plain_request\<close> is accepted at nine on an empty store.\<close>

definition stored_db :: db where
  "stored_db =
     \<lparr>entries = [\<lparr>entry_id = 1, url = ''https://dh.example/cfp'', event_date = ''2025-01-12'',
                  created_at = sql_text (nine_am 1), emailed = 0\<rparr>],
      seq = 1, last_email_sent = None\<rparr>"

definition stored_sheet :: sheet where
  "stored_sheet =
     \<lparr>rows = [\<lparr>entry_id = toString (nine_am 1), url = ''https://dh.example/cfp'',
               event_date = ''2025-01-12'', created_at = iso_text (nine_am 2), emailed = 0\<rparr>],
      lastEmailSent = None\<rparr>"

text \<open>
  Two rows of the table whose date texts stand in the other order than the dates they
  parse to: V8 reads \<open>2025-02-30\<close> as 2 March. The endpoint accepts both texts.
\<close>

definition feb30 :: "int entry" where
  "feb30 = \<lparr>entry_id = 1, url = ''https://dh.example/workshop'', event_date = ''2025-02-30'',
             created_at = ''2025-01-10 09:00:00'', emailed = 0\<rparr>"

definition mar1 :: "int entry" where
  "mar1 = \<lparr>entry_id = 2, url = ''https://dh.example/lecture'', event_date = ''2025-03-01'',
            created_at = ''2025-01-10 09:05:00'', emailed = 0\<rparr>"

definition feb30_request :: request where
  "feb30_request =
     \<lparr>req_url = Some ''https://dh.example/workshop'', req_date = Some ''2025-02-30''\<rparr>"

section \<open>The cycle and its verdict\<close>

text \<open>What \<open>evaluateAndSend\<close> does once the pending entries are read.\<close>

lemma cycle_sqlite:
  assumes "getUnemailedEntries_sqlite f d = Inr es"
  shows "evaluateAndSend_sqlite P f g send clock d =
     (if es = [] then (d, [], ReturnedEarly)
      else if shouldSend_sqlite P (clock 0) (getLastEmailSent_sqlite P f d) es
      then send_and_mark_sqlite P g send clock es d
      else (d, [], ConditionsNotMet))"
  using assms by (simp add: evaluateAndSend_sqlite_def shouldSend_sqlite_def)

lemma cycle_sheets:
  assumes "getUnemailedEntries_sheets P f s = Inr es"
  shows "evaluateAndSend_sheets P f g send clock s =
     (if es = [] then (s, [], ReturnedEarly)
      else if shouldSend_sheets P (clock 0) (getLastEmailSent_sheets s) es
      then send_and_mark_sheets P f g send clock es s
      else (s, [], ConditionsNotMet))"
  using assms by (simp add: evaluateAndSend_sheets_def shouldSend_sheets_def)

text \<open>
  C1. With no pending entry the cycle returns at once: the state is as before, no email
  goes out, and the verdict is false for every ledger and every time.
\<close>

theorem empty_backlog_never_sends:
  "(getUnemailedEntries_sqlite f d = Inr [] \<longrightarrow>
      evaluateAndSend_sqlite P f g send clock d = (d, [], ReturnedEarly)) \<and>
   (getUnemailedEntries_sheets P f' s = Inr [] \<longrightarrow>
      evaluateAndSend_sheets P f' g send' clock s = (s, [], ReturnedEarly)) \<and>
   \<not> shouldSend_sqlite P now lastSent [] \<and>
   \<not> shouldSend_sheets P now lastSent []"
  by (simp add: cycle_sqlite cycle_sheets shouldSend_sqlite_def shouldSend_sheets_def)

theorem empty_backlog_never_sends_witness:
  "getUnemailedEntries_sqlite no_fault empty_db = Inr [] \<and>
   getUnemailedEntries_sheets (node 0) no_fault empty_sheet = Inr [] \<and>
   evaluateAndSend_sqlite (node 0) no_fault no_preview (\<lambda>m. Delivered) nine_am empty_db =
     (empty_db, [], ReturnedEarly) \<and>
   evaluateAndSend_sheets (node 0) no_fault no_preview (\<lambda>m. Delivered) nine_am empty_sheet =
     (empty_sheet, [], ReturnedEarly)"
proof -
  have a: "getUnemailedEntries_sqlite no_fault empty_db = Inr []"
    by (simp add: getUnemailedEntries_sqlite_def no_fault_def empty_db_def)
  have b: "getUnemailedEntries_sheets (node 0) no_fault empty_sheet = Inr []"
    by (simp add: getUnemailedEntries_sheets_def no_fault_def empty_sheet_def js_sort_def)
  from a b
    empty_backlog_never_sends [where f = no_fault and d = empty_db and P = "node 0"
      and f' = no_fault and s = empty_sheet and g = no_preview
      and send = "\<lambda>m. Delivered" and send' = "\<lambda>m. Delivered" and clock = nine_am]
  show ?thesis by blast
qed

lemmas node_simps =
  node_def parse_iso_def parse_day_def parse_time_def digit_val_def days_from_civil_def

section \<open>Urgency, volume, staleness\<close>

lemma conditionA_sqlite_I:
  assumes "e \<in> set es" and "parseDate P (event_date e) = DateAt t"
    and "t \<le> now + 7 * 24 * 60 * 60 * 1000"
  shows "conditionA_sqlite P now es"
proof -
  have "date_le (parseDate P (event_date e)) (DateAt (now + 7 * 24 * 60 * 60 * 1000))"
    using assms(2,3) by simp
  with assms(1) show ?thesis
    unfolding conditionA_sqlite_def Let_def list_ex_iff by blast
qed

lemma conditionA_sheets_I:
  assumes "e \<in> set es" and "parseDate P (event_date e) = DateAt t"
    and "t \<le> now + 7 * 24 * 60 * 60 * 1000"
  shows "conditionA_sheets P now es"
proof -
  have "date_le (parseDate P (event_date e)) (DateAt (now + 7 * 24 * 60 * 60 * 1000))"
    using assms(2,3) by simp
  with assms(1) show ?thesis
    unfolding conditionA_sheets_def Let_def list_ex_iff by blast
qed

lemma urgent_verdict_sqlite:
  assumes "e \<in> set es" and "parseDate P (event_date e) = DateAt t"
    and "t \<le> now + 7 * 24 * 60 * 60 * 1000"
  shows "shouldSend_sqlite P now lastSent es"
proof -
  from assms(1) have "length es \<noteq> 0" by auto
  with conditionA_sqlite_I [OF assms] show ?thesis
    by (simp add: shouldSend_sqlite_def)
qed

lemma urgent_verdict_sheets:
  assumes "e \<in> set es" and "parseDate P (event_date e) = DateAt t"
    and "t \<le> now + 7 * 24 * 60 * 60 * 1000"
  shows "shouldSend_sheets P now lastSent es"
proof -
  from assms(1) have "length es \<noteq> 0" by auto
  with conditionA_sheets_I [OF assms] show ?thesis
    by (simp add: shouldSend_sheets_def)
qed

text \<open>
  C2. A pending entry whose date parses to a time not later than seven days after now
  makes the verdict true, and the cycle goes on to send all pending entries. A date that
  lies before now is such a date. The first part speaks of the verdict on any list of
  entries, the other two of the cycle of either variant, where now is the first reading
  of the clock.
\<close>

theorem urgent_entry_sends:
  "(e \<in> set es \<and> parseDate P (event_date e) = DateAt t \<and>
      (t \<le> now + 7 * 24 * 60 * 60 * 1000 \<or> t < now) \<longrightarrow>
      shouldSend_sqlite P now lastSent es \<and> shouldSend_sheets P now lastSent es) \<and>
   (getUnemailedEntries_sqlite f d = Inr qs \<and> q \<in> set qs \<and>
      parseDate P (event_date q) = DateAt u \<and>
      (u \<le> clock 0 + 7 * 24 * 60 * 60 * 1000 \<or> u < clock 0) \<longrightarrow>
      evaluateAndSend_sqlite P f g send clock d = send_and_mark_sqlite P g send clock qs d) \<and>
   (getUnemailedEntries_sheets P f' s = Inr rs \<and> r \<in> set rs \<and>
      parseDate P (event_date r) = DateAt v \<and>
      (v \<le> clock 0 + 7 * 24 * 60 * 60 * 1000 \<or> v < clock 0) \<longrightarrow>
      evaluateAndSend_sheets P f' g send' clock s =
        send_and_mark_sheets P f' g send' clock rs s)"
proof (intro conjI impI)
  assume h: "e \<in> set es \<and> parseDate P (event_date e) = DateAt t \<and>
      (t \<le> now + 7 * 24 * 60 * 60 * 1000 \<or> t < now)"
  then have le: "t \<le> now + 7 * 24 * 60 * 60 * 1000" by auto
  from h le show "shouldSend_sqlite P now lastSent es"
    using urgent_verdict_sqlite by blast
  from h le show "shouldSend_sheets P now lastSent es"
    using urgent_verdict_sheets by blast
next
  assume h: "getUnemailedEntries_sqlite f d = Inr qs \<and> q \<in> set qs \<and>
      parseDate P (event_date q) = DateAt u \<and>
      (u \<le> clock 0 + 7 * 24 * 60 * 60 * 1000 \<or> u < clock 0)"
  then have le: "u \<le> clock 0 + 7 * 24 * 60 * 60 * 1000" by auto
  from h have ne: "qs \<noteq> []" by auto
  from h le have "shouldSend_sqlite P (clock 0) (getLastEmailSent_sqlite P f d) qs"
    using urgent_verdict_sqlite by blast
  with h ne show "evaluateAndSend_sqlite P f g send clock d =
      send_and_mark_sqlite P g send clock qs d"
    by (simp add: cycle_sqlite)
next
  assume h: "getUnemailedEntries_sheets P f' s = Inr rs \<and> r \<in> set rs \<and>
      parseDate P (event_date r) = DateAt v \<and>
      (v \<le> clock 0 + 7 * 24 * 60 * 60 * 1000 \<or> v < clock 0)"
  then have le: "v \<le> clock 0 + 7 * 24 * 60 * 60 * 1000" by auto
  from h have ne: "rs \<noteq> []" by auto
  from h le have "shouldSend_sheets P (clock 0) (getLastEmailSent_sheets s) rs"
    using urgent_verdict_sheets by blast
  with h ne show "evaluateAndSend_sheets P f' g send' clock s =
      send_and_mark_sheets P f' g send' clock rs s"
    by (simp add: cycle_sheets)
qed

text \<open>
  An entry due in two days with the last email an hour old; in the cycles the overdue
  entry is the urgent one.
\<close>

theorem urgent_entry_sends_witness:
  "(cfp \<in> set [cfp] \<and> parseDate (node 0) (event_date cfp) = DateAt 1736640000000 \<and>
      (1736640000000 \<le> nine_am 0 + 7 * 24 * 60 * 60 * 1000 \<or> 1736640000000 < nine_am 0)) \<and>
   shouldSend_sqlite (node 0) (nine_am 0) (Some (DateAt 1736496000000)) [cfp] \<and>
   shouldSend_sheets (node 0) (nine_am 0) (Some (DateAt 1736496000000)) [cfp] \<and>
   (getUnemailedEntries_sqlite no_fault
        (db_of [cfp, overdue] (Some ''2025-01-10T08:00:00.000Z'')) = Inr [overdue, cfp] \<and>
      overdue \<in> set [overdue, cfp] \<and>
      parseDate (node 0) (event_date overdue) = DateAt 1735862400000 \<and>
      (1735862400000 \<le> nine_am 0 + 7 * 24 * 60 * 60 * 1000 \<or> 1735862400000 < nine_am 0)) \<and>
   evaluateAndSend_sqlite (node 0) no_fault no_preview (\<lambda>m. Delivered) nine_am
       (db_of [cfp, overdue] (Some ''2025-01-10T08:00:00.000Z'')) =
     send_and_mark_sqlite (node 0) no_preview (\<lambda>m. Delivered) nine_am [overdue, cfp]
       (db_of [cfp, overdue] (Some ''2025-01-10T08:00:00.000Z'')) \<and>
   (getUnemailedEntries_sheets (node 0) no_fault
        (sheet_of [cfp_row, overdue_row] (Some (DateAt 1736496000000))) =
        Inr [overdue_row, cfp_row] \<and>
      overdue_row \<in> set [overdue_row, cfp_row] \<and>
      parseDate (node 0) (event_date overdue_row) = DateAt 1735862400000 \<and>
      (1735862400000 \<le> nine_am 0 + 7 * 24 * 60 * 60 * 1000 \<or> 1735862400000 < nine_am 0)) \<and>
   evaluateAndSend_sheets (node 0) no_fault no_preview (\<lambda>m. Delivered) nine_am
       (sheet_of [cfp_row, overdue_row] (Some (DateAt 1736496000000))) =
     send_and_mark_sheets (node 0) no_fault no_preview (\<lambda>m. Delivered) nine_am
       [overdue_row, cfp_row] (sheet_of [cfp_row, overdue_row] (Some (DateAt 1736496000000)))"
proof -
  have h1: "cfp \<in> set [cfp] \<and> parseDate (node 0) (event_date cfp) = DateAt 1736640000000 \<and>
      (1736640000000 \<le> nine_am 0 + 7 * 24 * 60 * 60 * 1000 \<or> 1736640000000 < nine_am 0)"
    by (simp add: cfp_def nine_am_def node_simps)
  have h2: "getUnemailedEntries_sqlite no_fault
        (db_of [cfp, overdue] (Some ''2025-01-10T08:00:00.000Z'')) = Inr [overdue, cfp] \<and>
      overdue \<in> set [overdue, cfp] \<and>
      parseDate (node 0) (event_date overdue) = DateAt 1735862400000 \<and>
      (1735862400000 \<le> nine_am 0 + 7 * 24 * 60 * 60 * 1000 \<or> 1735862400000 < nine_am 0)"
    by (simp add: getUnemailedEntries_sqlite_def no_fault_def db_of_def cfp_def overdue_def
        nine_am_def node_simps)
  have h3: "getUnemailedEntries_sheets (node 0) no_fault
        (sheet_of [cfp_row, overdue_row] (Some (DateAt 1736496000000))) =
        Inr [overdue_row, cfp_row] \<and>
      overdue_row \<in> set [overdue_row, cfp_row] \<and>
      parseDate (node 0) (event_date overdue_row) = DateAt 1735862400000 \<and>
      (1735862400000 \<le> nine_am 0 + 7 * 24 * 60 * 60 * 1000 \<or> 1735862400000 < nine_am 0)"
    by (simp add: getUnemailedEntries_sheets_def js_sort_def no_fault_def sheet_of_def
        cfp_row_def overdue_row_def nine_am_def node_simps)
  note main = urgent_entry_sends [where P = "node 0" and clock = nine_am
      and e = cfp and es = "[cfp]" and t = 1736640000000 and now = "nine_am 0"
      and lastSent = "Some (DateAt 1736496000000)"
      and f = no_fault and d = "db_of [cfp, overdue] (Some ''2025-01-10T08:00:00.000Z'')"
      and qs = "[overdue, cfp]" and q = overdue and u = 1735862400000
      and g = no_preview and send = "\<lambda>m. Delivered"
      and f' = no_fault and s = "sheet_of [cfp_row, overdue_row] (Some (DateAt 1736496000000))"
      and rs = "[overdue_row, cfp_row]" and r = overdue_row and v = 1735862400000
      and send' = "\<lambda>m. Delivered"]
  from h1 h2 h3 main show ?thesis by blast
qed

text \<open>
  C3. Seven or more pending entries make the verdict true, whatever their dates and
  whatever the ledger holds, and the cycle goes on to send them.
\<close>

theorem seven_entries_send:
  "(7 \<le> length es \<longrightarrow>
      shouldSend_sqlite P now lastSent es \<and> shouldSend_sheets P now lastSent es) \<and>
   (getUnemailedEntries_sqlite f d = Inr qs \<and> 7 \<le> length qs \<longrightarrow>
      evaluateAndSend_sqlite P f g send clock d = send_and_mark_sqlite P g send clock qs d) \<and>
   (getUnemailedEntries_sheets P f' s = Inr rs \<and> 7 \<le> length rs \<longrightarrow>
      evaluateAndSend_sheets P f' g send' clock s =
        send_and_mark_sheets P f' g send' clock rs s)"
proof (intro conjI impI)
  assume h: "7 \<le> length es"
  then have ne: "es \<noteq> []" by auto
  from h ne show "shouldSend_sqlite P now lastSent es"
    by (simp add: shouldSend_sqlite_def conditionB_sqlite_def)
  from h ne show "shouldSend_sheets P now lastSent es"
    by (simp add: shouldSend_sheets_def conditionB_sheets_def)
next
  assume h: "getUnemailedEntries_sqlite f d = Inr qs \<and> 7 \<le> length qs"
  then have ne: "qs \<noteq> []" by auto
  from h ne have "shouldSend_sqlite P (clock 0) (getLastEmailSent_sqlite P f d) qs"
    by (simp add: shouldSend_sqlite_def conditionB_sqlite_def)
  with ne show "evaluateAndSend_sqlite P f g send clock d =
      send_and_mark_sqlite P g send clock qs d"
    using h by (simp add: cycle_sqlite)
next
  assume h: "getUnemailedEntries_sheets P f' s = Inr rs \<and> 7 \<le> length rs"
  then have ne: "rs \<noteq> []" by auto
  from h ne have "shouldSend_sheets P (clock 0) (getLastEmailSent_sheets s) rs"
    by (simp add: shouldSend_sheets_def conditionB_sheets_def)
  with ne show "evaluateAndSend_sheets P f' g send' clock s =
      send_and_mark_sheets P f' g send' clock rs s"
    using h by (simp add: cycle_sheets)
qed

text \<open>Seven entries of June, read in January, an hour after the last email.\<close>

theorem seven_entries_send_witness:
  "7 \<le> length (map far [1, 2, 3, 4, 5, 6, 7]) \<and>
   shouldSend_sqlite (node 0) (nine_am 0) (Some (DateAt 1736496000000))
     (map far [1, 2, 3, 4, 5, 6, 7]) \<and>
   shouldSend_sheets (node 0) (nine_am 0) (Some (DateAt 1736496000000))
     (map far [1, 2, 3, 4, 5, 6, 7]) \<and>
   (getUnemailedEntries_sqlite no_fault
        (db_of (map far [1, 2, 3, 4, 5, 6, 7]) (Some ''2025-01-10T08:00:00.000Z'')) =
        Inr (map far [1, 2, 3, 4, 5, 6, 7]) \<and>
      7 \<le> length (map far [1, 2, 3, 4, 5, 6, 7])) \<and>
   evaluateAndSend_sqlite (node 0) no_fault no_preview (\<lambda>m. Delivered) nine_am
       (db_of (map far [1, 2, 3, 4, 5, 6, 7]) (Some ''2025-01-10T08:00:00.000Z'')) =
     send_and_mark_sqlite (node 0) no_preview (\<lambda>m. Delivered) nine_am
       (map far [1, 2, 3, 4, 5, 6, 7])
       (db_of (map far [1, 2, 3, 4, 5, 6, 7]) (Some ''2025-01-10T08:00:00.000Z'')) \<and>
   (getUnemailedEntries_sheets (node 0) no_fault
        (sheet_of (map far_row [1, 2, 3, 4, 5, 6, 7]) (Some (DateAt 1736496000000))) =
        Inr (map far_row [1, 2, 3, 4, 5, 6, 7]) \<and>
      7 \<le> length (map far_row [1, 2, 3, 4, 5, 6, 7])) \<and>
   evaluateAndSend_sheets (node 0) no_fault no_preview (\<lambda>m. Delivered) nine_am
       (sheet_of (map far_row [1, 2, 3, 4, 5, 6, 7]) (Some (DateAt 1736496000000))) =
     send_and_mark_sheets (node 0) no_fault no_preview (\<lambda>m. Delivered) nine_am
       (map far_row [1, 2, 3, 4, 5, 6, 7])
       (sheet_of (map far_row [1, 2, 3, 4, 5, 6, 7]) (Some (DateAt 1736496000000)))"
proof -
  have h1: "7 \<le> length (map far [1, 2, 3, 4, 5, 6, 7])"
    by simp
  have h2: "getUnemailedEntries_sqlite no_fault
        (db_of (map far [1, 2, 3, 4, 5, 6, 7]) (Some ''2025-01-10T08:00:00.000Z'')) =
        Inr (map far [1, 2, 3, 4, 5, 6, 7]) \<and>
      7 \<le> length (map far [1, 2, 3, 4, 5, 6, 7])"
    by (simp add: getUnemailedEntries_sqlite_def no_fault_def db_of_def far_def)
  have h3: "getUnemailedEntries_sheets (node 0) no_fault
        (sheet_of (map far_row [1, 2, 3, 4, 5, 6, 7]) (Some (DateAt 1736496000000))) =
        Inr (map far_row [1, 2, 3, 4, 5, 6, 7]) \<and>
      7 \<le> length (map far_row [1, 2, 3, 4, 5, 6, 7])"
    by (simp add: getUnemailedEntries_sheets_def js_sort_def no_fault_def sheet_of_def
        far_row_def node_simps)
  note main = seven_entries_send [where P = "node 0" and clock = nine_am
      and es = "map far [1, 2, 3, 4, 5, 6, 7]" and now = "nine_am 0"
      and lastSent = "Some (DateAt 1736496000000)" and f = no_fault
      and d = "db_of (map far [1, 2, 3, 4, 5, 6, 7]) (Some ''2025-01-10T08:00:00.000Z'')"
      and qs = "map far [1, 2, 3, 4, 5, 6, 7]" and g = no_preview
      and send = "\<lambda>m. Delivered" and f' = no_fault
      and s = "sheet_of (map far_row [1, 2, 3, 4, 5, 6, 7]) (Some (DateAt 1736496000000))"
      and rs = "map far_row [1, 2, 3, 4, 5, 6, 7]" and send' = "\<lambda>m. Delivered"]
  from h1 h2 h3 main show ?thesis by blast
qed

text \<open>
  C4. With a pending entry, an absent ledger or a last email more than 21 days before
  now makes the verdict true, whatever the number of entries and their dates, and the
  cycle goes on to send them.
\<close>

theorem stale_ledger_sends:
  "(es \<noteq> [] \<and> (lastSent = None \<or>
        (\<exists>l. lastSent = Some (DateAt l) \<and> now - l > 21 * 24 * 60 * 60 * 1000)) \<longrightarrow>
      shouldSend_sqlite P now lastSent es \<and> shouldSend_sheets P now lastSent es) \<and>
   (getUnemailedEntries_sqlite f d = Inr qs \<and> qs \<noteq> [] \<and>
      (getLastEmailSent_sqlite P f d = None \<or>
        (\<exists>l. getLastEmailSent_sqlite P f d = Some (DateAt l) \<and>
             clock 0 - l > 21 * 24 * 60 * 60 * 1000)) \<longrightarrow>
      evaluateAndSend_sqlite P f g send clock d = send_and_mark_sqlite P g send clock qs d) \<and>
   (getUnemailedEntries_sheets P f' s = Inr rs \<and> rs \<noteq> [] \<and>
      (getLastEmailSent_sheets s = None \<or>
        (\<exists>l. getLastEmailSent_sheets s = Some (DateAt l) \<and>
             clock 0 - l > 21 * 24 * 60 * 60 * 1000)) \<longrightarrow>
      evaluateAndSend_sheets P f' g send' clock s =
        send_and_mark_sheets P f' g send' clock rs s)"
proof -
  have c_sqlite: "conditionC_sqlite n ls"
    if "ls = None \<or> (\<exists>l. ls = Some (DateAt l) \<and> n - l > 21 * 24 * 60 * 60 * 1000)"
    for n ls
    using that by (auto simp: conditionC_sqlite_def)
  have c_sheets: "conditionC_sheets n ls"
    if "ls = None \<or> (\<exists>l. ls = Some (DateAt l) \<and> n - l > 21 * 24 * 60 * 60 * 1000)"
    for n ls
    using that by (auto simp: conditionC_sheets_def)
  show ?thesis
  proof (intro conjI impI)
    assume h: "es \<noteq> [] \<and> (lastSent = None \<or>
        (\<exists>l. lastSent = Some (DateAt l) \<and> now - l > 21 * 24 * 60 * 60 * 1000))"
    with c_sqlite [of lastSent now] show "shouldSend_sqlite P now lastSent es"
      by (simp add: shouldSend_sqlite_def)
    from h c_sheets [of lastSent now] show "shouldSend_sheets P now lastSent es"
      by (simp add: shouldSend_sheets_def)
  next
    assume h: "getUnemailedEntries_sqlite f d = Inr qs \<and> qs \<noteq> [] \<and>
      (getLastEmailSent_sqlite P f d = None \<or>
        (\<exists>l. getLastEmailSent_sqlite P f d = Some (DateAt l) \<and>
             clock 0 - l > 21 * 24 * 60 * 60 * 1000))"
    with c_sqlite [of "getLastEmailSent_sqlite P f d" "clock 0"]
    have "shouldSend_sqlite P (clock 0) (getLastEmailSent_sqlite P f d) qs"
      by (simp add: shouldSend_sqlite_def)
    with h show "evaluateAndSend_sqlite P f g send clock d =
        send_and_mark_sqlite P g send clock qs d"
      by (simp add: cycle_sqlite)
  next
    assume h: "getUnemailedEntries_sheets P f' s = Inr rs \<and> rs \<noteq> [] \<and>
      (getLastEmailSent_sheets s = None \<or>
        (\<exists>l. getLastEmailSent_sheets s = Some (DateAt l) \<and>
             clock 0 - l > 21 * 24 * 60 * 60 * 1000))"
    with c_sheets [of "getLastEmailSent_sheets s" "clock 0"]
    have "shouldSend_sheets P (clock 0) (getLastEmailSent_sheets s) rs"
      by (simp add: shouldSend_sheets_def)
    with h show "evaluateAndSend_sheets P f' g send' clock s =
        send_and_mark_sheets P f' g send' clock rs s"
      by (simp add: cycle_sheets)
  qed
qed

text \<open>
  One entry of June: no ledger at all for the verdict, a ledger of 15 December in the
  database, none in the sheet.
\<close>

theorem stale_ledger_sends_witness:
  "([far 1] \<noteq> [] \<and> ((None :: jsdate option) = None \<or>
        (\<exists>l. (None :: jsdate option) = Some (DateAt l) \<and>
             nine_am 0 - l > 21 * 24 * 60 * 60 * 1000))) \<and>
   shouldSend_sqlite (node 0) (nine_am 0) None [far 1] \<and>
   shouldSend_sheets (node 0) (nine_am 0) None [far 1] \<and>
   (getUnemailedEntries_sqlite no_fault (db_of [far 1] (Some ''2024-12-15T09:00:00.000Z'')) =
        Inr [far 1] \<and> [far 1] \<noteq> [] \<and>
      getLastEmailSent_sqlite (node 0) no_fault
          (db_of [far 1] (Some ''2024-12-15T09:00:00.000Z'')) = Some (DateAt 1734253200000) \<and>
      nine_am 0 - 1734253200000 > 21 * 24 * 60 * 60 * 1000) \<and>
   evaluateAndSend_sqlite (node 0) no_fault no_preview (\<lambda>m. Delivered) nine_am
       (db_of [far 1] (Some ''2024-12-15T09:00:00.000Z'')) =
     send_and_mark_sqlite (node 0) no_preview (\<lambda>m. Delivered) nine_am [far 1]
       (db_of [far 1] (Some ''2024-12-15T09:00:00.000Z'')) \<and>
   (getUnemailedEntries_sheets (node 0) no_fault (sheet_of [far_row 1] None) =
        Inr [far_row 1] \<and> [far_row 1] \<noteq> [] \<and>
      getLastEmailSent_sheets (sheet_of [far_row 1] None) = None) \<and>
   evaluateAndSend_sheets (node 0) no_fault no_preview (\<lambda>m. Delivered) nine_am
       (sheet_of [far_row 1] None) =
     send_and_mark_sheets (node 0) no_fault no_preview (\<lambda>m. Delivered) nine_am [far_row 1]
       (sheet_of [far_row 1] None)"
proof -
  have h1: "[far 1] \<noteq> [] \<and> ((None :: jsdate option) = None \<or>
        (\<exists>l. (None :: jsdate option) = Some (DateAt l) \<and>
             nine_am 0 - l > 21 * 24 * 60 * 60 * 1000))"
    by simp
  have h2: "getUnemailedEntries_sqlite no_fault
        (db_of [far 1] (Some ''2024-12-15T09:00:00.000Z'')) = Inr [far 1] \<and> [far 1] \<noteq> [] \<and>
      getLastEmailSent_sqlite (node 0) no_fault
          (db_of [far 1] (Some ''2024-12-15T09:00:00.000Z'')) = Some (DateAt 1734253200000) \<and>
      nine_am 0 - 1734253200000 > 21 * 24 * 60 * 60 * 1000"
    by (simp add: getUnemailedEntries_sqlite_def getLastEmailSent_sqlite_def no_fault_def
        db_of_def far_def nine_am_def node_simps)
  have h3: "getUnemailedEntries_sheets (node 0) no_fault (sheet_of [far_row 1] None) =
        Inr [far_row 1] \<and> [far_row 1] \<noteq> [] \<and>
      getLastEmailSent_sheets (sheet_of [far_row 1] None) = None"
    by (simp add: getUnemailedEntries_sheets_def getLastEmailSent_sheets_def js_sort_def
        no_fault_def sheet_of_def far_row_def)
  note main = stale_ledger_sends [where P = "node 0" and clock = nine_am
      and es = "[far 1]" and now = "nine_am 0" and lastSent = None and f = no_fault
      and d = "db_of [far 1] (Some ''2024-12-15T09:00:00.000Z'')" and qs = "[far 1]"
      and g = no_preview and send = "\<lambda>m. Delivered" and f' = no_fault
      and s = "sheet_of [far_row 1] None" and rs = "[far_row 1]"
      and send' = "\<lambda>m. Delivered"]
  from h1 h2 h3 main show ?thesis by blast
qed

section \<open>The two variants decide alike\<close>

text \<open>
  The conditions read the date texts of the entries and their number only, so they agree
  on a row of the table and a row of the sheet that differ in the type of the id.
\<close>

lemma conditions_read_dates:
  assumes "map event_date qs = map event_date rs"
  shows "conditionA_sqlite P now qs = conditionA_sheets P now rs"
    and "conditionB_sqlite qs = conditionB_sheets rs"
    and "shouldSend_sqlite P now lastSent qs = shouldSend_sheets P now lastSent rs"
proof -
  have ex: "list_ex (\<lambda>e. p (event_date e)) xs = list_ex p (map event_date xs)"
    for p :: "string \<Rightarrow> bool" and xs :: "('i, 'z) entry_scheme list"
    by (simp add: list_ex_iff)
  from assms have len: "length qs = length rs"
    by (rule map_eq_imp_length_eq)
  show a: "conditionA_sqlite P now qs = conditionA_sheets P now rs"
    unfolding conditionA_sqlite_def conditionA_sheets_def Let_def
    by (simp only: ex [of "\<lambda>x. date_le (parseDate P x) (DateAt (now + 7 * 24 * 60 * 60 * 1000))"]
        assms)
  show b: "conditionB_sqlite qs = conditionB_sheets rs"
    by (simp add: conditionB_sqlite_def conditionB_sheets_def len)
  show "shouldSend_sqlite P now lastSent qs = shouldSend_sheets P now lastSent rs"
    by (simp add: shouldSend_sqlite_def shouldSend_sheets_def a b len
        conditionC_sqlite_def conditionC_sheets_def)
qed

lemma send_and_mark_logs:
  "snd (snd (send_and_mark_sqlite P g send clock es d)) \<noteq> ReturnedEarly"
  "snd (snd (send_and_mark_sqlite P g send clock es d)) \<noteq> ConditionsNotMet"
  "snd (snd (send_and_mark_sheets P f g send' clock rs s)) \<noteq> ReturnedEarly"
  "snd (snd (send_and_mark_sheets P f g send' clock rs s)) \<noteq> ConditionsNotMet"
  by (simp_all add: send_and_mark_sqlite_def send_and_mark_sheets_def
      split: prod.splits sum.splits)

text \<open>
  C9. The two variants of \<open>evaluateAndSend\<close> decide by the same function. Each cycle, once
  its pending entries are read, returns early on none and else branches on its
  conditionA, conditionB and conditionC, computed from the entries, the first reading of
  the clock and the ledger. The three conditions and the verdict of the one variant equal
  those of the other on the same entries, the same last-sent value and the same now, also
  when the ids are integers in the one and texts in the other. So two cycles that read
  entries with the same dates and the same ledger at the same time both return early,
  both find the conditions not met, or both go on to send.
\<close>

theorem variants_decide_alike:
  "conditionA_sqlite P now es = conditionA_sheets P now es \<and>
   conditionB_sqlite es = conditionB_sheets es \<and>
   conditionC_sqlite now lastSent = conditionC_sheets now lastSent \<and>
   shouldSend_sqlite P now lastSent es = shouldSend_sheets P now lastSent es \<and>
   (map event_date qs = map event_date rs \<longrightarrow>
      conditionA_sqlite P now qs = conditionA_sheets P now rs \<and>
      conditionB_sqlite qs = conditionB_sheets rs \<and>
      shouldSend_sqlite P now lastSent qs = shouldSend_sheets P now lastSent rs) \<and>
   (getUnemailedEntries_sqlite f d = Inr qs \<longrightarrow>
      evaluateAndSend_sqlite P f g send clock d =
        (if length qs = 0 then (d, [], ReturnedEarly)
         else if conditionA_sqlite P (clock 0) qs \<or> conditionB_sqlite qs \<or>
                 conditionC_sqlite (clock 0) (getLastEmailSent_sqlite P f d)
         then send_and_mark_sqlite P g send clock qs d
         else (d, [], ConditionsNotMet))) \<and>
   (getUnemailedEntries_sheets P f' s = Inr rs \<longrightarrow>
      evaluateAndSend_sheets P f' g send' clock s =
        (if length rs = 0 then (s, [], ReturnedEarly)
         else if conditionA_sheets P (clock 0) rs \<or> conditionB_sheets rs \<or>
                 conditionC_sheets (clock 0) (getLastEmailSent_sheets s)
         then send_and_mark_sheets P f' g send' clock rs s
         else (s, [], ConditionsNotMet))) \<and>
   (getUnemailedEntries_sqlite f d = Inr qs \<and> getUnemailedEntries_sheets P f' s = Inr rs \<and>
      map event_date qs = map event_date rs \<and>
      getLastEmailSent_sqlite P f d = getLastEmailSent_sheets s \<longrightarrow>
      (snd (snd (evaluateAndSend_sqlite P f g send clock d)) = ReturnedEarly) =
        (snd (snd (evaluateAndSend_sheets P f' g send' clock s)) = ReturnedEarly) \<and>
      (snd (snd (evaluateAndSend_sqlite P f g send clock d)) = ConditionsNotMet) =
        (snd (snd (evaluateAndSend_sheets P f' g send' clock s)) = ConditionsNotMet))"
proof (intro conjI impI)
  show "conditionA_sqlite P now es = conditionA_sheets P now es"
    by (simp add: conditionA_sqlite_def conditionA_sheets_def)
  show "conditionB_sqlite es = conditionB_sheets es"
    by (simp add: conditionB_sqlite_def conditionB_sheets_def)
  show "conditionC_sqlite now lastSent = conditionC_sheets now lastSent"
    by (simp add: conditionC_sqlite_def conditionC_sheets_def)
  show "shouldSend_sqlite P now lastSent es = shouldSend_sheets P now lastSent es"
    by (rule conditions_read_dates) (rule refl)
next
  assume m: "map event_date qs = map event_date rs"
  show "conditionA_sqlite P now qs = conditionA_sheets P now rs"
    by (rule conditions_read_dates [OF m])
  show "conditionB_sqlite qs = conditionB_sheets rs"
    by (rule conditions_read_dates [OF m])
  show "shouldSend_sqlite P now lastSent qs = shouldSend_sheets P now lastSent rs"
    by (rule conditions_read_dates [OF m])
next
  assume "getUnemailedEntries_sqlite f d = Inr qs"
  then show "evaluateAndSend_sqlite P f g send clock d =
        (if length qs = 0 then (d, [], ReturnedEarly)
         else if conditionA_sqlite P (clock 0) qs \<or> conditionB_sqlite qs \<or>
                 conditionC_sqlite (clock 0) (getLastEmailSent_sqlite P f d)
         then send_and_mark_sqlite P g send clock qs d
         else (d, [], ConditionsNotMet))"
    by (simp add: evaluateAndSend_sqlite_def)
next
  assume "getUnemailedEntries_sheets P f' s = Inr rs"
  then show "evaluateAndSend_sheets P f' g send' clock s =
        (if length rs = 0 then (s, [], ReturnedEarly)
         else if conditionA_sheets P (clock 0) rs \<or> conditionB_sheets rs \<or>
                 conditionC_sheets (clock 0) (getLastEmailSent_sheets s)
         then send_and_mark_sheets P f' g send' clock rs s
         else (s, [], ConditionsNotMet))"
    by (simp add: evaluateAndSend_sheets_def)
next
  assume h: "getUnemailedEntries_sqlite f d = Inr qs \<and>
      getUnemailedEntries_sheets P f' s = Inr rs \<and>
      map event_date qs = map event_date rs \<and>
      getLastEmailSent_sqlite P f d = getLastEmailSent_sheets s"
  then have m: "map event_date qs = map event_date rs" by simp
  then have e: "(qs = []) = (rs = [])" by (metis map_is_Nil_conv)
  from h have v: "shouldSend_sqlite P (clock 0) (getLastEmailSent_sqlite P f d) qs =
      shouldSend_sheets P (clock 0) (getLastEmailSent_sheets s) rs"
    using conditions_read_dates(3) [OF m] by simp
  from h have c1: "evaluateAndSend_sqlite P f g send clock d =
     (if qs = [] then (d, [], ReturnedEarly)
      else if shouldSend_sqlite P (clock 0) (getLastEmailSent_sqlite P f d) qs
      then send_and_mark_sqlite P g send clock qs d
      else (d, [], ConditionsNotMet))"
    by (simp add: cycle_sqlite)
  from h have c2: "evaluateAndSend_sheets P f' g send' clock s =
     (if rs = [] then (s, [], ReturnedEarly)
      else if shouldSend_sheets P (clock 0) (getLastEmailSent_sheets s) rs
      then send_and_mark_sheets P f' g send' clock rs s
      else (s, [], ConditionsNotMet))"
    by (simp add: cycle_sheets)
  show "(snd (snd (evaluateAndSend_sqlite P f g send clock d)) = ReturnedEarly) =
        (snd (snd (evaluateAndSend_sheets P f' g send' clock s)) = ReturnedEarly)"
    unfolding c1 c2 using e v by (simp add: send_and_mark_logs)
  show "(snd (snd (evaluateAndSend_sqlite P f g send clock d)) = ConditionsNotMet) =
        (snd (snd (evaluateAndSend_sheets P f' g send' clock s)) = ConditionsNotMet)"
    unfolding c1 c2 using e v by (simp add: send_and_mark_logs)
qed

text \<open>
  One entry of June in the table and in the sheet, the last email an hour old: both
  cycles find the conditions not met.
\<close>

theorem variants_decide_alike_witness:
  "map event_date [far 1] = map event_date [far_row 1] \<and>
   conditionA_sqlite (node 0) (nine_am 0) [far 1] =
     conditionA_sheets (node 0) (nine_am 0) [far_row 1] \<and>
   conditionB_sqlite [far 1] = conditionB_sheets [far_row 1] \<and>
   shouldSend_sqlite (node 0) (nine_am 0) (Some (DateAt 1736496000000)) [far 1] =
     shouldSend_sheets (node 0) (nine_am 0) (Some (DateAt 1736496000000)) [far_row 1] \<and>
   getUnemailedEntries_sqlite no_fault (db_of [far 1] (Some ''2025-01-10T08:00:00.000Z'')) =
     Inr [far 1] \<and>
   getUnemailedEntries_sheets (node 0) no_fault
       (sheet_of [far_row 1] (Some (DateAt 1736496000000))) = Inr [far_row 1] \<and>
   getLastEmailSent_sqlite (node 0) no_fault
       (db_of [far 1] (Some ''2025-01-10T08:00:00.000Z'')) =
     getLastEmailSent_sheets (sheet_of [far_row 1] (Some (DateAt 1736496000000))) \<and>
   evaluateAndSend_sqlite (node 0) no_fault no_preview (\<lambda>m. Delivered) nine_am
       (db_of [far 1] (Some ''2025-01-10T08:00:00.000Z'')) =
     (db_of [far 1] (Some ''2025-01-10T08:00:00.000Z''), [], ConditionsNotMet) \<and>
   evaluateAndSend_sheets (node 0) no_fault no_preview (\<lambda>m. Delivered) nine_am
       (sheet_of [far_row 1] (Some (DateAt 1736496000000))) =
     (sheet_of [far_row 1] (Some (DateAt 1736496000000)), [], ConditionsNotMet) \<and>
   (snd (snd (evaluateAndSend_sqlite (node 0) no_fault no_preview (\<lambda>m. Delivered) nine_am
       (db_of [far 1] (Some ''2025-01-10T08:00:00.000Z'')))) = ConditionsNotMet) =
     (snd (snd (evaluateAndSend_sheets (node 0) no_fault no_preview (\<lambda>m. Delivered) nine_am
       (sheet_of [far_row 1] (Some (DateAt 1736496000000))))) = ConditionsNotMet)"
proof -
  let ?D = "db_of [far 1] (Some ''2025-01-10T08:00:00.000Z'')"
  let ?S = "sheet_of [far_row 1] (Some (DateAt 1736496000000))"
  have m: "map event_date [far 1] = map event_date [far_row 1]"
    by (simp add: far_def far_row_def)
  have g1: "getUnemailedEntries_sqlite no_fault ?D = Inr [far 1]"
    by (simp add: getUnemailedEntries_sqlite_def no_fault_def db_of_def far_def)
  have g2: "getUnemailedEntries_sheets (node 0) no_fault ?S = Inr [far_row 1]"
    by (simp add: getUnemailedEntries_sheets_def js_sort_def no_fault_def sheet_of_def
        far_row_def)
  have l1: "getLastEmailSent_sqlite (node 0) no_fault ?D = Some (DateAt 1736496000000)"
    by (simp add: getLastEmailSent_sqlite_def no_fault_def db_of_def node_simps)
  have l2: "getLastEmailSent_sheets ?S = Some (DateAt 1736496000000)"
    by (simp add: getLastEmailSent_sheets_def sheet_of_def)
  have a: "\<not> conditionA_sqlite (node 0) (nine_am 0) [far 1]"
    by (simp add: conditionA_sqlite_def far_def nine_am_def node_simps)
  have b: "\<not> conditionB_sqlite [far 1]"
    by (simp add: conditionB_sqlite_def)
  have c: "\<not> conditionC_sqlite (nine_am 0) (Some (DateAt 1736496000000))"
    by (simp add: conditionC_sqlite_def nine_am_def)
  note main = variants_decide_alike [where P = "node 0" and now = "nine_am 0"
      and lastSent = "Some (DateAt 1736496000000)" and es = "[far 1]" and qs = "[far 1]"
      and rs = "[far_row 1]" and f = no_fault and f' = no_fault and d = ?D and s = ?S
      and g = no_preview and send = "\<lambda>m. Delivered" and send' = "\<lambda>m. Delivered"
      and clock = nine_am]
  from main m have eqs: "conditionA_sqlite (node 0) (nine_am 0) [far 1] =
      conditionA_sheets (node 0) (nine_am 0) [far_row 1] \<and>
    conditionB_sqlite [far 1] = conditionB_sheets [far_row 1] \<and>
    shouldSend_sqlite (node 0) (nine_am 0) (Some (DateAt 1736496000000)) [far 1] =
      shouldSend_sheets (node 0) (nine_am 0) (Some (DateAt 1736496000000)) [far_row 1]"
    by blast
  from main have cc: "conditionC_sqlite (nine_am 0) (Some (DateAt 1736496000000)) =
      conditionC_sheets (nine_am 0) (Some (DateAt 1736496000000))"
    by blast
  from main g1 have "evaluateAndSend_sqlite (node 0) no_fault no_preview (\<lambda>m. Delivered)
      nine_am ?D =
     (if length [far 1] = 0 then (?D, [], ReturnedEarly)
      else if conditionA_sqlite (node 0) (nine_am 0) [far 1] \<or> conditionB_sqlite [far 1] \<or>
              conditionC_sqlite (nine_am 0) (getLastEmailSent_sqlite (node 0) no_fault ?D)
      then send_and_mark_sqlite (node 0) no_preview (\<lambda>m. Delivered) nine_am [far 1] ?D
      else (?D, [], ConditionsNotMet))"
    by blast
  with a b c have r1: "evaluateAndSend_sqlite (node 0) no_fault no_preview (\<lambda>m. Delivered)
      nine_am ?D = (?D, [], ConditionsNotMet)"
    by (simp add: l1)
  from main g2 have "evaluateAndSend_sheets (node 0) no_fault no_preview (\<lambda>m. Delivered)
      nine_am ?S =
     (if length [far_row 1] = 0 then (?S, [], ReturnedEarly)
      else if conditionA_sheets (node 0) (nine_am 0) [far_row 1] \<or>
              conditionB_sheets [far_row 1] \<or>
              conditionC_sheets (nine_am 0) (getLastEmailSent_sheets ?S)
      then send_and_mark_sheets (node 0) no_fault no_preview (\<lambda>m. Delivered) nine_am
             [far_row 1] ?S
      else (?S, [], ConditionsNotMet))"
    by blast
  with a b c eqs cc have r2: "evaluateAndSend_sheets (node 0) no_fault no_preview
      (\<lambda>m. Delivered) nine_am ?S = (?S, [], ConditionsNotMet)"
    by (simp add: l2)
  from l1 l2 have l: "getLastEmailSent_sqlite (node 0) no_fault ?D = getLastEmailSent_sheets ?S"
    by simp
  from main g1 g2 m l
  have same: "(snd (snd (evaluateAndSend_sqlite (node 0) no_fault no_preview (\<lambda>m. Delivered)
       nine_am ?D)) = ConditionsNotMet) =
     (snd (snd (evaluateAndSend_sheets (node 0) no_fault no_preview (\<lambda>m. Delivered) nine_am
       ?S)) = ConditionsNotMet)"
    by blast
  from m eqs g1 g2 l r1 r2 same show ?thesis by blast
qed

section \<open>A failed dispatch\<close>

lemma sendNewsletter_sqlite_cases:
  assumes "es \<noteq> []"
  shows "sendNewsletter_sqlite P g send t es =
     (case send (digest_sqlite P g t es) of
        Delivered \<Rightarrow> ([digest_sqlite P g t es], Inr ())
      | ReturnedError err \<Rightarrow> ([], Inl err)
      | SendThrows err \<Rightarrow> ([], Inl err))"
  using assms by (simp add: sendNewsletter_sqlite_def Let_def)

lemma sendNewsletter_sheets_cases:
  assumes "es \<noteq> []"
  shows "sendNewsletter_sheets P g send t es =
     (case send (digest_sheets P g t es) of
        Delivered \<Rightarrow> ([digest_sheets P g t es], Inr ())
      | ReturnedError err \<Rightarrow> ([], Inl err)
      | SendThrows err \<Rightarrow> ([], Inl err))"
  using assms by (simp add: sendNewsletter_sheets_def Let_def)

lemma failed_send_sqlite:
  assumes "es \<noteq> []"
    and "send (digest_sqlite P g (clock 1) es) = ReturnedError err \<or>
         send (digest_sqlite P g (clock 1) es) = SendThrows err"
  shows "send_and_mark_sqlite P g send clock es d = (d, [], CronError err)"
  using assms by (auto simp: send_and_mark_sqlite_def sendNewsletter_sqlite_cases)

lemma failed_send_sheets:
  assumes "es \<noteq> []"
    and "send (digest_sheets P g (clock 1) es) = ReturnedError err \<or>
         send (digest_sheets P g (clock 1) es) = SendThrows err"
  shows "send_and_mark_sheets P f g send clock es s = (s, [], CronError err)"
  using assms by (auto simp: send_and_mark_sheets_def sendNewsletter_sheets_cases)

lemma nothing_out_sqlite:
  assumes "es \<noteq> []" and "fst (snd (send_and_mark_sqlite P g send clock es d)) = []"
  shows "fst (send_and_mark_sqlite P g send clock es d) = d"
  using assms
  by (auto simp: send_and_mark_sqlite_def sendNewsletter_sqlite_cases split: send_result.splits)

lemma nothing_out_sheets:
  assumes "es \<noteq> []" and "fst (snd (send_and_mark_sheets P f g send clock es s)) = []"
  shows "fst (send_and_mark_sheets P f g send clock es s) = s"
  using assms
  by (auto simp: send_and_mark_sheets_def sendNewsletter_sheets_cases
      split: send_result.splits sum.splits)

text \<open>
  C6. When the cycle decides to send and the provider does not accept the digest (it
  returns an error or the call throws), the cycle ends in its catch clause with the state
  it started from: no entry is marked as emailed and the ledger holds what it held. More
  generally the state changes in no cycle in which no email is accepted.
\<close>

theorem failed_dispatch_changes_nothing:
  "(getUnemailedEntries_sqlite f d = Inr qs \<and> qs \<noteq> [] \<and>
      shouldSend_sqlite P (clock 0) (getLastEmailSent_sqlite P f d) qs \<and>
      (send (digest_sqlite P g (clock 1) qs) = ReturnedError err \<or>
       send (digest_sqlite P g (clock 1) qs) = SendThrows err) \<longrightarrow>
      evaluateAndSend_sqlite P f g send clock d = (d, [], CronError err)) \<and>
   (getUnemailedEntries_sheets P f' s = Inr rs \<and> rs \<noteq> [] \<and>
      shouldSend_sheets P (clock 0) (getLastEmailSent_sheets s) rs \<and>
      (send' (digest_sheets P g (clock 1) rs) = ReturnedError err' \<or>
       send' (digest_sheets P g (clock 1) rs) = SendThrows err') \<longrightarrow>
      evaluateAndSend_sheets P f' g send' clock s = (s, [], CronError err')) \<and>
   (fst (snd (evaluateAndSend_sqlite P f g send clock d)) = [] \<longrightarrow>
      fst (evaluateAndSend_sqlite P f g send clock d) = d) \<and>
   (fst (snd (evaluateAndSend_sheets P f' g send' clock s)) = [] \<longrightarrow>
      fst (evaluateAndSend_sheets P f' g send' clock s) = s)"
proof (intro conjI impI)
  assume "getUnemailedEntries_sqlite f d = Inr qs \<and> qs \<noteq> [] \<and>
      shouldSend_sqlite P (clock 0) (getLastEmailSent_sqlite P f d) qs \<and>
      (send (digest_sqlite P g (clock 1) qs) = ReturnedError err \<or>
       send (digest_sqlite P g (clock 1) qs) = SendThrows err)"
  then show "evaluateAndSend_sqlite P f g send clock d = (d, [], CronError err)"
    by (simp add: cycle_sqlite failed_send_sqlite)
next
  assume "getUnemailedEntries_sheets P f' s = Inr rs \<and> rs \<noteq> [] \<and>
      shouldSend_sheets P (clock 0) (getLastEmailSent_sheets s) rs \<and>
      (send' (digest_sheets P g (clock 1) rs) = ReturnedError err' \<or>
       send' (digest_sheets P g (clock 1) rs) = SendThrows err')"
  then show "evaluateAndSend_sheets P f' g send' clock s = (s, [], CronError err')"
    by (simp add: cycle_sheets failed_send_sheets)
next
  assume out: "fst (snd (evaluateAndSend_sqlite P f g send clock d)) = []"
  show "fst (evaluateAndSend_sqlite P f g send clock d) = d"
  proof (cases "getUnemailedEntries_sqlite f d")
    case (Inl e)
    then show ?thesis by (simp add: evaluateAndSend_sqlite_def)
  next
    case (Inr es)
    with out show ?thesis
      by (auto simp: cycle_sqlite nothing_out_sqlite split: if_splits)
  qed
next
  assume out: "fst (snd (evaluateAndSend_sheets P f' g send' clock s)) = []"
  show "fst (evaluateAndSend_sheets P f' g send' clock s) = s"
  proof (cases "getUnemailedEntries_sheets P f' s")
    case (Inl e)
    then show ?thesis by (simp add: evaluateAndSend_sheets_def)
  next
    case (Inr es)
    with out show ?thesis
      by (auto simp: cycle_sheets nothing_out_sheets split: if_splits)
  qed
qed

text \<open>
  An overdue entry and a provider that answers every email with an error (SQLite) or
  whose call throws (sheet).
\<close>

theorem failed_dispatch_changes_nothing_witness:
  "(getUnemailedEntries_sqlite no_fault (db_of [overdue] None) = Inr [overdue] \<and>
      [overdue] \<noteq> [] \<and>
      shouldSend_sqlite (node 0) (nine_am 0)
        (getLastEmailSent_sqlite (node 0) no_fault (db_of [overdue] None)) [overdue] \<and>
      ((\<lambda>m. ReturnedError ''rate limit'')
          (digest_sqlite (node 0) no_preview (nine_am 1) [overdue]) =
        ReturnedError ''rate limit'' \<or>
       (\<lambda>m. ReturnedError ''rate limit'')
          (digest_sqlite (node 0) no_preview (nine_am 1) [overdue]) =
        SendThrows ''rate limit'')) \<and>
   evaluateAndSend_sqlite (node 0) no_fault no_preview (\<lambda>m. ReturnedError ''rate limit'')
       nine_am (db_of [overdue] None) =
     (db_of [overdue] None, [], CronError ''rate limit'') \<and>
   (getUnemailedEntries_sheets (node 0) no_fault (sheet_of [overdue_row] None) =
        Inr [overdue_row] \<and> [overdue_row] \<noteq> [] \<and>
      shouldSend_sheets (node 0) (nine_am 0)
        (getLastEmailSent_sheets (sheet_of [overdue_row] None)) [overdue_row] \<and>
      ((\<lambda>m. SendThrows ''fetch failed'')
          (digest_sheets (node 0) no_preview (nine_am 1) [overdue_row]) =
        ReturnedError ''fetch failed'' \<or>
       (\<lambda>m. SendThrows ''fetch failed'')
          (digest_sheets (node 0) no_preview (nine_am 1) [overdue_row]) =
        SendThrows ''fetch failed'')) \<and>
   evaluateAndSend_sheets (node 0) no_fault no_preview (\<lambda>m. SendThrows ''fetch failed'')
       nine_am (sheet_of [overdue_row] None) =
     (sheet_of [overdue_row] None, [], CronError ''fetch failed'') \<and>
   fst (snd (evaluateAndSend_sqlite (node 0) no_fault no_preview
       (\<lambda>m. ReturnedError ''rate limit'') nine_am (db_of [overdue] None))) = [] \<and>
   fst (evaluateAndSend_sqlite (node 0) no_fault no_preview
       (\<lambda>m. ReturnedError ''rate limit'') nine_am (db_of [overdue] None)) =
     db_of [overdue] None \<and>
   fst (snd (evaluateAndSend_sheets (node 0) no_fault no_preview
       (\<lambda>m. SendThrows ''fetch failed'') nine_am (sheet_of [overdue_row] None))) = [] \<and>
   fst (evaluateAndSend_sheets (node 0) no_fault no_preview
       (\<lambda>m. SendThrows ''fetch failed'') nine_am (sheet_of [overdue_row] None)) =
     sheet_of [overdue_row] None"
proof -
  have h1: "getUnemailedEntries_sqlite no_fault (db_of [overdue] None) = Inr [overdue] \<and>
      [overdue] \<noteq> [] \<and>
      shouldSend_sqlite (node 0) (nine_am 0)
        (getLastEmailSent_sqlite (node 0) no_fault (db_of [overdue] None)) [overdue] \<and>
      ((\<lambda>m. ReturnedError ''rate limit'')
          (digest_sqlite (node 0) no_preview (nine_am 1) [overdue]) =
        ReturnedError ''rate limit'' \<or>
       (\<lambda>m. ReturnedError ''rate limit'')
          (digest_sqlite (node 0) no_preview (nine_am 1) [overdue]) =
        SendThrows ''rate limit'')"
    by (simp add: getUnemailedEntries_sqlite_def getLastEmailSent_sqlite_def no_fault_def
        db_of_def overdue_def shouldSend_sqlite_def conditionC_sqlite_def)
  have h2: "getUnemailedEntries_sheets (node 0) no_fault (sheet_of [overdue_row] None) =
        Inr [overdue_row] \<and> [overdue_row] \<noteq> [] \<and>
      shouldSend_sheets (node 0) (nine_am 0)
        (getLastEmailSent_sheets (sheet_of [overdue_row] None)) [overdue_row] \<and>
      ((\<lambda>m. SendThrows ''fetch failed'')
          (digest_sheets (node 0) no_preview (nine_am 1) [overdue_row]) =
        ReturnedError ''fetch failed'' \<or>
       (\<lambda>m. SendThrows ''fetch failed'')
          (digest_sheets (node 0) no_preview (nine_am 1) [overdue_row]) =
        SendThrows ''fetch failed'')"
    by (simp add: getUnemailedEntries_sheets_def getLastEmailSent_sheets_def js_sort_def
        no_fault_def sheet_of_def overdue_row_def shouldSend_sheets_def conditionC_sheets_def)
  note main = failed_dispatch_changes_nothing [where P = "node 0" and clock = nine_am
      and f = no_fault and d = "db_of [overdue] None" and qs = "[overdue]"
      and g = no_preview and send = "\<lambda>m. ReturnedError ''rate limit''"
      and err = "''rate limit''" and f' = no_fault and s = "sheet_of [overdue_row] None"
      and rs = "[overdue_row]" and send' = "\<lambda>m. SendThrows ''fetch failed''"
      and err' = "''fetch failed''"]
  from main h1 have r1: "evaluateAndSend_sqlite (node 0) no_fault no_preview
       (\<lambda>m. ReturnedError ''rate limit'') nine_am (db_of [overdue] None) =
     (db_of [overdue] None, [], CronError ''rate limit'')"
    by blast
  from main h2 have r2: "evaluateAndSend_sheets (node 0) no_fault no_preview
       (\<lambda>m. SendThrows ''fetch failed'') nine_am (sheet_of [overdue_row] None) =
     (sheet_of [overdue_row] None, [], CronError ''fetch failed'')"
    by blast
  from r1 have o1: "fst (snd (evaluateAndSend_sqlite (node 0) no_fault no_preview
       (\<lambda>m. ReturnedError ''rate limit'') nine_am (db_of [overdue] None))) = []"
    by simp
  from r2 have o2: "fst (snd (evaluateAndSend_sheets (node 0) no_fault no_preview
       (\<lambda>m. SendThrows ''fetch failed'') nine_am (sheet_of [overdue_row] None))) = []"
    by simp
  from h1 h2 r1 r2 o1 o2 main show ?thesis by blast
qed

section \<open>Previews that fail\<close>

text \<open>
  C7. An entry whose preview fetch throws is enriched with its own URL as title, an empty
  description and, in the SQLite variant, no image (the enriched entry of the sheet
  variant has no image field at all); its own fields are kept. The digest holds one
  enriched entry for each entry handed to \<open>sendNewsletter\<close>, in the same order, each
  computed from that entry alone, and whether the email goes out depends on the provider
  only, not on any preview.
\<close>

theorem preview_failure_falls_back:
  "(g (url e) = PreviewThrows \<longrightarrow>
      title (enrich_sqlite g e) = url e \<and> description (enrich_sqlite g e) = [] \<and>
      image (enrich_sqlite g e) = None \<and>
      entry_id (enrich_sqlite g e) = entry_id e \<and> url (enrich_sqlite g e) = url e \<and>
      event_date (enrich_sqlite g e) = event_date e) \<and>
   (g (url r) = PreviewThrows \<longrightarrow>
      title (enrich_sheets g r) = url r \<and> description (enrich_sheets g r) = [] \<and>
      entry_id (enrich_sheets g r) = entry_id r \<and> url (enrich_sheets g r) = url r \<and>
      event_date (enrich_sheets g r) = event_date r) \<and>
   items (digest_sqlite P g t es) = map (enrich_sqlite g) es \<and>
   items (digest_sheets P g t rs) = map (enrich_sheets g) rs \<and>
   (es \<noteq> [] \<and> send (digest_sqlite P g t es) = Delivered \<longrightarrow>
      sendNewsletter_sqlite P g send t es = ([digest_sqlite P g t es], Inr ())) \<and>
   (rs \<noteq> [] \<and> send' (digest_sheets P g t rs) = Delivered \<longrightarrow>
      sendNewsletter_sheets P g send' t rs = ([digest_sheets P g t rs], Inr ()))"
proof (intro conjI impI)
  assume "g (url e) = PreviewThrows"
  then show "title (enrich_sqlite g e) = url e" "description (enrich_sqlite g e) = []"
    "image (enrich_sqlite g e) = None" "entry_id (enrich_sqlite g e) = entry_id e"
    "url (enrich_sqlite g e) = url e" "event_date (enrich_sqlite g e) = event_date e"
    by (simp_all add: enrich_sqlite_def)
next
  assume "g (url r) = PreviewThrows"
  then show "title (enrich_sheets g r) = url r" "description (enrich_sheets g r) = []"
    "entry_id (enrich_sheets g r) = entry_id r" "url (enrich_sheets g r) = url r"
    "event_date (enrich_sheets g r) = event_date r"
    by (simp_all add: enrich_sheets_def)
next
  show "items (digest_sqlite P g t es) = map (enrich_sqlite g) es"
    by (simp add: digest_sqlite_def)
  show "items (digest_sheets P g t rs) = map (enrich_sheets g) rs"
    by (simp add: digest_sheets_def)
next
  assume "es \<noteq> [] \<and> send (digest_sqlite P g t es) = Delivered"
  then show "sendNewsletter_sqlite P g send t es = ([digest_sqlite P g t es], Inr ())"
    by (simp add: sendNewsletter_sqlite_cases)
next
  assume "rs \<noteq> [] \<and> send' (digest_sheets P g t rs) = Delivered"
  then show "sendNewsletter_sheets P g send' t rs = ([digest_sheets P g t rs], Inr ())"
    by (simp add: sendNewsletter_sheets_cases)
qed

text \<open>
  Two entries, the preview of the second fails: the digest still has both, the first
  with the title read from its page.
\<close>

theorem preview_failure_falls_back_witness:
  "flaky_preview (url cfp) = PreviewThrows \<and>
   title (enrich_sqlite flaky_preview cfp) = url cfp \<and>
   description (enrich_sqlite flaky_preview cfp) = [] \<and>
   image (enrich_sqlite flaky_preview cfp) = None \<and>
   flaky_preview (url cfp_row) = PreviewThrows \<and>
   title (enrich_sheets flaky_preview cfp_row) = url cfp_row \<and>
   description (enrich_sheets flaky_preview cfp_row) = [] \<and>
   map title (items (digest_sqlite (node 0) flaky_preview (nine_am 1) [overdue, cfp])) =
     [''A talk'', ''https://dh.example/cfp''] \<and>
   map title (items (digest_sheets (node 0) flaky_preview (nine_am 1) [overdue_row, cfp_row])) =
     [''A talk'', ''https://dh.example/cfp''] \<and>
   ([overdue, cfp] \<noteq> [] \<and>
      (\<lambda>m. Delivered) (digest_sqlite (node 0) flaky_preview (nine_am 1) [overdue, cfp]) =
        Delivered) \<and>
   sendNewsletter_sqlite (node 0) flaky_preview (\<lambda>m. Delivered) (nine_am 1) [overdue, cfp] =
     ([digest_sqlite (node 0) flaky_preview (nine_am 1) [overdue, cfp]], Inr ()) \<and>
   ([overdue_row, cfp_row] \<noteq> [] \<and>
      (\<lambda>m. Delivered)
        (digest_sheets (node 0) flaky_preview (nine_am 1) [overdue_row, cfp_row]) =
        Delivered) \<and>
   sendNewsletter_sheets (node 0) flaky_preview (\<lambda>m. Delivered) (nine_am 1)
       [overdue_row, cfp_row] =
     ([digest_sheets (node 0) flaky_preview (nine_am 1) [overdue_row, cfp_row]], Inr ())"
proof -
  have h1: "flaky_preview (url cfp) = PreviewThrows"
    by (simp add: flaky_preview_def cfp_def)
  have h2: "flaky_preview (url cfp_row) = PreviewThrows"
    by (simp add: flaky_preview_def cfp_row_def)
  have h3: "[overdue, cfp] \<noteq> [] \<and>
      (\<lambda>m. Delivered) (digest_sqlite (node 0) flaky_preview (nine_am 1) [overdue, cfp]) =
        Delivered"
    by simp
  have h4: "[overdue_row, cfp_row] \<noteq> [] \<and>
      (\<lambda>m. Delivered)
        (digest_sheets (node 0) flaky_preview (nine_am 1) [overdue_row, cfp_row]) =
        Delivered"
    by simp
  note main = preview_failure_falls_back [where g = flaky_preview and e = cfp
      and r = cfp_row and P = "node 0" and t = "nine_am 1" and es = "[overdue, cfp]"
      and rs = "[overdue_row, cfp_row]" and send = "\<lambda>m. Delivered"
      and send' = "\<lambda>m. Delivered"]
  from main have i1:
    "items (digest_sqlite (node 0) flaky_preview (nine_am 1) [overdue, cfp]) =
       map (enrich_sqlite flaky_preview) [overdue, cfp]"
    by blast
  from main have i2:
    "items (digest_sheets (node 0) flaky_preview (nine_am 1) [overdue_row, cfp_row]) =
       map (enrich_sheets flaky_preview) [overdue_row, cfp_row]"
    by blast
  have t1: "map title (items (digest_sqlite (node 0) flaky_preview (nine_am 1) [overdue, cfp])) =
     [''A talk'', ''https://dh.example/cfp'']"
    unfolding i1
    by (simp add: enrich_sqlite_def flaky_preview_def overdue_def cfp_def)
  have t2: "map title (items (digest_sheets (node 0) flaky_preview (nine_am 1)
       [overdue_row, cfp_row])) = [''A talk'', ''https://dh.example/cfp'']"
    unfolding i2
    by (simp add: enrich_sheets_def flaky_preview_def overdue_row_def cfp_row_def)
  from h1 h2 h3 h4 t1 t2 main show ?thesis by blast
qed

section \<open>Which entries the digest holds, and in which order\<close>

lemma mset_js_insert: "mset (js_insert cmp x ys) = add_mset x (mset ys)"
  by (induction ys) auto

lemma mset_js_sort: "mset (js_sort cmp xs) = mset xs"
  by (induction xs) (auto simp: js_sort_def mset_js_insert)

text \<open>On a comparator that subtracts keys the sort is the stable sort by that key.\<close>

lemma js_insert_insort_key:
  assumes "\<forall>y \<in> set ys. cmp x y = Some (k x - k y)"
  shows "js_insert cmp x ys = insort_key k x ys"
  using assms by (induction ys) auto

lemma js_sort_sort_key:
  assumes "\<forall>x \<in> set xs. \<forall>y \<in> set xs. cmp x y = Some (k x - k y)"
  shows "js_sort cmp xs = sort_key k xs"
  using assms
proof (induction xs)
  case Nil
  show ?case by (simp add: js_sort_def)
next
  case (Cons x xs)
  then have ih: "js_sort cmp xs = sort_key k xs" by simp
  have "js_sort cmp (x # xs) = js_insert cmp x (sort_key k xs)"
    using ih by (simp add: js_sort_def)
  also have "\<dots> = insort_key k x (sort_key k xs)"
    using Cons.prems by (intro js_insert_insort_key) simp
  finally show ?case by (simp add: sort_key_def)
qed

lemma date_minus_time_of:
  assumes "parseDate P (event_date a) \<noteq> InvalidDate"
    and "parseDate P (event_date b) \<noteq> InvalidDate"
  shows "date_minus (parseDate P (event_date a)) (parseDate P (event_date b)) =
     Some (time_of P a - time_of P b)"
  using assms
  by (cases "parseDate P (event_date a)"; cases "parseDate P (event_date b)")
     (simp_all add: time_of_def)

lemma date_le_time_of:
  assumes "parseDate P (event_date a) \<noteq> InvalidDate"
    and "parseDate P (event_date b) \<noteq> InvalidDate"
  shows "date_le (parseDate P (event_date a)) (parseDate P (event_date b)) =
     (time_of P a \<le> time_of P b)"
  using assms
  by (cases "parseDate P (event_date a)"; cases "parseDate P (event_date b)")
     (simp_all add: time_of_def)

lemma sheets_sorted_stable:
  fixes xs :: "string entry list" and P :: platform
  assumes valid: "\<forall>e \<in> set xs. parseDate P (event_date e) \<noteq> InvalidDate"
  defines "cmp \<equiv> \<lambda>a b. date_minus (parseDate P (event_date a)) (parseDate P (event_date b))"
  shows "sorted_wrt (\<lambda>a b. date_le (parseDate P (event_date a)) (parseDate P (event_date b)))
           (js_sort cmp xs)"
    and "filter (\<lambda>e. parseDate P (event_date e) = D) (js_sort cmp xs) =
         filter (\<lambda>e. parseDate P (event_date e) = D) xs"
proof -
  have eq: "js_sort cmp xs = sort_key (time_of P) xs"
    using valid unfolding cmp_def
    by (intro js_sort_sort_key) (simp add: date_minus_time_of)
  have "sorted (map (time_of P) (sort_key (time_of P) xs))"
    by (rule sorted_sort_key)
  then have "sorted_wrt (\<lambda>a b. time_of P a \<le> time_of P b) (sort_key (time_of P) xs)"
    by (simp add: sorted_map)
  then have "sorted_wrt (\<lambda>a b. date_le (parseDate P (event_date a)) (parseDate P (event_date b)))
      (sort_key (time_of P) xs)"
    by (rule sorted_wrt_mono_rel [rotated]) (use valid in \<open>simp add: date_le_time_of\<close>)
  with eq show "sorted_wrt
      (\<lambda>a b. date_le (parseDate P (event_date a)) (parseDate P (event_date b)))
      (js_sort cmp xs)"
    by simp
  show "filter (\<lambda>e. parseDate P (event_date e) = D) (js_sort cmp xs) =
      filter (\<lambda>e. parseDate P (event_date e) = D) xs"
  proof (cases D)
    case (DateAt c)
    have same: "(parseDate P (event_date e) = D) = (time_of P e = c)" if "e \<in> set xs" for e
      using valid that DateAt
      by (cases "parseDate P (event_date e)") (auto simp: time_of_def)
    have "filter (\<lambda>e. parseDate P (event_date e) = D) (sort_key (time_of P) xs) =
        filter (\<lambda>e. time_of P e = c) (sort_key (time_of P) xs)"
      by (rule filter_cong) (simp_all add: same)
    also have "\<dots> = filter (\<lambda>e. time_of P e = c) xs"
      by (rule sort_key_stable)
    also have "\<dots> = filter (\<lambda>e. parseDate P (event_date e) = D) xs"
      by (rule filter_cong) (simp_all add: same)
    finally show ?thesis by (simp add: eq)
  next
    case InvalidDate
    with valid have "filter (\<lambda>e. parseDate P (event_date e) = D) xs = []"
      by (simp add: filter_empty_conv)
    moreover have "set (js_sort cmp xs) = set xs"
      by (simp add: eq)
    with InvalidDate valid
    have "filter (\<lambda>e. parseDate P (event_date e) = D) (js_sort cmp xs) = []"
      by (simp add: filter_empty_conv)
    ultimately show ?thesis by simp
  qed
qed

lemma delivered_out_sqlite:
  assumes "es \<noteq> []" and "send (digest_sqlite P g (clock 1) es) = Delivered"
  shows "fst (snd (send_and_mark_sqlite P g send clock es d)) =
     [digest_sqlite P g (clock 1) es]"
  using assms by (simp add: send_and_mark_sqlite_def sendNewsletter_sqlite_cases)

lemma delivered_out_sheets:
  assumes "es \<noteq> []" and "send (digest_sheets P g (clock 1) es) = Delivered"
  shows "fst (snd (send_and_mark_sheets P f g send clock es s)) =
     [digest_sheets P g (clock 1) es]"
  using assms
  by (simp add: send_and_mark_sheets_def sendNewsletter_sheets_cases split: sum.splits)

lemma digest_keeps_entries:
  "map entry_id (items (digest_sqlite P g t es)) = map entry_id es"
  "map event_date (items (digest_sqlite P g t es)) = map event_date es"
  "map entry_id (items (digest_sheets P g t rs)) = map entry_id rs"
  "map event_date (items (digest_sheets P g t rs)) = map event_date rs"
  by (simp_all add: digest_sqlite_def digest_sheets_def enrich_sqlite_def enrich_sheets_def
      split: preview.splits)

text \<open>
  C5, as the code has it. Whenever the verdict is true the digest holds all pending
  entries (one enriched entry for each, with its id and date). In the sheet variant,
  when the date of every pending row parses, they stand in ascending order of the date,
  and rows of equal date keep the order they have in the sheet. In the SQLite variant
  they stand in ascending order of the date when, among the pending entries, the order
  of the date texts agrees with the order of the dates they parse to. No id is compared
  in either variant.
\<close>

theorem digest_holds_pending_by_date:
  fixes P :: platform
  shows
  "(getUnemailedEntries_sheets P f' s = Inr rs \<longrightarrow>
      mset rs = mset (filter (\<lambda>r. emailed r = 0) (rows s))) \<and>
   (getUnemailedEntries_sheets P f' s = Inr rs \<and>
      (\<forall>r \<in> set (rows s). emailed r = 0 \<longrightarrow> parseDate P (event_date r) \<noteq> InvalidDate) \<longrightarrow>
      sorted_wrt (\<lambda>a b. date_le (parseDate P (event_date a)) (parseDate P (event_date b))) rs \<and>
      (\<forall>D. filter (\<lambda>e. parseDate P (event_date e) = D) rs =
           filter (\<lambda>e. parseDate P (event_date e) = D)
             (filter (\<lambda>r. emailed r = 0) (rows s)))) \<and>
   (getUnemailedEntries_sqlite f d = Inr qs \<longrightarrow>
      mset qs = mset (filter (\<lambda>e. emailed e = 0) (entries d))) \<and>
   (getUnemailedEntries_sqlite f d = Inr qs \<and>
      (\<forall>a \<in> set qs. \<forall>b \<in> set qs. event_date a \<le> event_date b \<longrightarrow>
         date_le (parseDate P (event_date a)) (parseDate P (event_date b))) \<longrightarrow>
      sorted_wrt (\<lambda>a b. date_le (parseDate P (event_date a)) (parseDate P (event_date b))) qs) \<and>
   (getUnemailedEntries_sheets P f' s = Inr rs \<and>
      shouldSend_sheets P (clock 0) (getLastEmailSent_sheets s) rs \<and>
      send' (digest_sheets P g (clock 1) rs) = Delivered \<longrightarrow>
      fst (snd (evaluateAndSend_sheets P f' g send' clock s)) =
        [digest_sheets P g (clock 1) rs] \<and>
      map entry_id (items (digest_sheets P g (clock 1) rs)) = map entry_id rs \<and>
      map event_date (items (digest_sheets P g (clock 1) rs)) = map event_date rs) \<and>
   (getUnemailedEntries_sqlite f d = Inr qs \<and>
      shouldSend_sqlite P (clock 0) (getLastEmailSent_sqlite P f d) qs \<and>
      send (digest_sqlite P g (clock 1) qs) = Delivered \<longrightarrow>
      fst (snd (evaluateAndSend_sqlite P f g send clock d)) =
        [digest_sqlite P g (clock 1) qs] \<and>
      map entry_id (items (digest_sqlite P g (clock 1) qs)) = map entry_id qs \<and>
      map event_date (items (digest_sqlite P g (clock 1) qs)) = map event_date qs)"
proof (intro conjI impI allI)
  assume "getUnemailedEntries_sheets P f' s = Inr rs"
  then show "mset rs = mset (filter (\<lambda>r. emailed r = 0) (rows s))"
    by (auto simp: getUnemailedEntries_sheets_def mset_js_sort split: if_splits)
next
  assume h: "getUnemailedEntries_sheets P f' s = Inr rs \<and>
      (\<forall>r \<in> set (rows s). emailed r = 0 \<longrightarrow> parseDate P (event_date r) \<noteq> InvalidDate)"
  then have rs: "rs = js_sort
      (\<lambda>a b. date_minus (parseDate P (event_date a)) (parseDate P (event_date b)))
      (filter (\<lambda>r. emailed r = 0) (rows s))"
    by (auto simp: getUnemailedEntries_sheets_def split: if_splits)
  from h have valid: "\<forall>e \<in> set (filter (\<lambda>r. emailed r = 0) (rows s)).
      parseDate P (event_date e) \<noteq> InvalidDate"
    by simp
  show "sorted_wrt (\<lambda>a b. date_le (parseDate P (event_date a)) (parseDate P (event_date b))) rs"
    unfolding rs by (rule sheets_sorted_stable(1) [OF valid])
  show "filter (\<lambda>e. parseDate P (event_date e) = D) rs =
      filter (\<lambda>e. parseDate P (event_date e) = D) (filter (\<lambda>r. emailed r = 0) (rows s))"
    for D
    unfolding rs by (rule sheets_sorted_stable(2) [OF valid])
next
  assume h: "getUnemailedEntries_sqlite f d = Inr qs"
  then show "mset qs = mset (filter (\<lambda>e. emailed e = 0) (entries d))"
    by (auto simp: getUnemailedEntries_sqlite_def split: if_splits)
next
  assume h: "getUnemailedEntries_sqlite f d = Inr qs \<and>
      (\<forall>a \<in> set qs. \<forall>b \<in> set qs. event_date a \<le> event_date b \<longrightarrow>
         date_le (parseDate P (event_date a)) (parseDate P (event_date b)))"
  then have "sorted (map event_date qs)"
    by (auto simp: getUnemailedEntries_sqlite_def split: if_splits)
  then have "sorted_wrt (\<lambda>a b. event_date a \<le> event_date b) qs"
    by (simp add: sorted_map)
  then show "sorted_wrt
      (\<lambda>a b. date_le (parseDate P (event_date a)) (parseDate P (event_date b))) qs"
    by (rule sorted_wrt_mono_rel [rotated]) (use h in blast)
next
  assume h: "getUnemailedEntries_sheets P f' s = Inr rs \<and>
      shouldSend_sheets P (clock 0) (getLastEmailSent_sheets s) rs \<and>
      send' (digest_sheets P g (clock 1) rs) = Delivered"
  then have ne: "rs \<noteq> []"
    by (auto simp: shouldSend_sheets_def)
  with h show "fst (snd (evaluateAndSend_sheets P f' g send' clock s)) =
      [digest_sheets P g (clock 1) rs]"
    by (simp add: cycle_sheets delivered_out_sheets)
  show "map entry_id (items (digest_sheets P g (clock 1) rs)) = map entry_id rs"
    by (rule digest_keeps_entries)
  show "map event_date (items (digest_sheets P g (clock 1) rs)) = map event_date rs"
    by (rule digest_keeps_entries)
next
  assume h: "getUnemailedEntries_sqlite f d = Inr qs \<and>
      shouldSend_sqlite P (clock 0) (getLastEmailSent_sqlite P f d) qs \<and>
      send (digest_sqlite P g (clock 1) qs) = Delivered"
  then have ne: "qs \<noteq> []"
    by (auto simp: shouldSend_sqlite_def)
  with h show "fst (snd (evaluateAndSend_sqlite P f g send clock d)) =
      [digest_sqlite P g (clock 1) qs]"
    by (simp add: cycle_sqlite delivered_out_sqlite)
  show "map entry_id (items (digest_sqlite P g (clock 1) qs)) = map entry_id qs"
    by (rule digest_keeps_entries)
  show "map event_date (items (digest_sqlite P g (clock 1) qs)) = map event_date qs"
    by (rule digest_keeps_entries)
qed

text \<open>
  A sheet of four rows, one of them sent, two of the pending ones for the same day; a
  table of three rows, one of them sent.
\<close>

theorem digest_holds_pending_by_date_witness:
  "getUnemailedEntries_sheets (node 0) no_fault
       (sheet_of [sent_row, cfp_row, overdue_row, first_row] None) =
     Inr [overdue_row, cfp_row, first_row] \<and>
   parseDate (node 0) (event_date cfp_row) = DateAt 1736640000000 \<and>
   parseDate (node 0) (event_date overdue_row) = DateAt 1735862400000 \<and>
   parseDate (node 0) (event_date first_row) = DateAt 1736640000000 \<and>
   mset [overdue_row, cfp_row, first_row] =
     mset (filter (\<lambda>r. emailed r = 0)
       (rows (sheet_of [sent_row, cfp_row, overdue_row, first_row] None))) \<and>
   sorted_wrt (\<lambda>a b. date_le (parseDate (node 0) (event_date a))
       (parseDate (node 0) (event_date b))) [overdue_row, cfp_row, first_row] \<and>
   filter (\<lambda>e. parseDate (node 0) (event_date e) = DateAt 1736640000000)
       [overdue_row, cfp_row, first_row] =
     filter (\<lambda>e. parseDate (node 0) (event_date e) = DateAt 1736640000000)
       (filter (\<lambda>r. emailed r = 0)
         (rows (sheet_of [sent_row, cfp_row, overdue_row, first_row] None))) \<and>
   getUnemailedEntries_sqlite no_fault (db_of [sent_entry, cfp, overdue] None) =
     Inr [overdue, cfp] \<and>
   parseDate (node 0) (event_date cfp) = DateAt 1736640000000 \<and>
   parseDate (node 0) (event_date overdue) = DateAt 1735862400000 \<and>
   mset [overdue, cfp] =
     mset (filter (\<lambda>e. emailed e = 0) (entries (db_of [sent_entry, cfp, overdue] None))) \<and>
   (event_date overdue \<le> event_date cfp \<and> \<not> event_date cfp \<le> event_date overdue) \<and>
   sorted_wrt (\<lambda>a b. date_le (parseDate (node 0) (event_date a))
       (parseDate (node 0) (event_date b))) [overdue, cfp] \<and>
   shouldSend_sheets (node 0) (nine_am 0)
     (getLastEmailSent_sheets (sheet_of [sent_row, cfp_row, overdue_row, first_row] None))
     [overdue_row, cfp_row, first_row] \<and>
   fst (snd (evaluateAndSend_sheets (node 0) no_fault no_preview (\<lambda>m. Delivered) nine_am
       (sheet_of [sent_row, cfp_row, overdue_row, first_row] None))) =
     [digest_sheets (node 0) no_preview (nine_am 1) [overdue_row, cfp_row, first_row]] \<and>
   map entry_id (items (digest_sheets (node 0) no_preview (nine_am 1)
       [overdue_row, cfp_row, first_row])) = map entry_id [overdue_row, cfp_row, first_row] \<and>
   shouldSend_sqlite (node 0) (nine_am 0)
     (getLastEmailSent_sqlite (node 0) no_fault (db_of [sent_entry, cfp, overdue] None))
     [overdue, cfp] \<and>
   fst (snd (evaluateAndSend_sqlite (node 0) no_fault no_preview (\<lambda>m. Delivered) nine_am
       (db_of [sent_entry, cfp, overdue] None))) =
     [digest_sqlite (node 0) no_preview (nine_am 1) [overdue, cfp]] \<and>
   map entry_id (items (digest_sqlite (node 0) no_preview (nine_am 1) [overdue, cfp])) =
     map entry_id [overdue, cfp]"
proof -
  let ?S = "sheet_of [sent_row, cfp_row, overdue_row, first_row] None"
  let ?D = "db_of [sent_entry, cfp, overdue] None"
  have p1: "parseDate (node 0) (event_date cfp_row) = DateAt 1736640000000"
    by (simp add: cfp_row_def node_simps)
  have p2: "parseDate (node 0) (event_date overdue_row) = DateAt 1735862400000"
    by (simp add: overdue_row_def node_simps)
  have p3: "parseDate (node 0) (event_date first_row) = DateAt 1736640000000"
    by (simp add: first_row_def node_simps)
  have p4: "parseDate (node 0) (event_date cfp) = DateAt 1736640000000"
    by (simp add: cfp_def node_simps)
  have p5: "parseDate (node 0) (event_date overdue) = DateAt 1735862400000"
    by (simp add: overdue_def node_simps)
  have rows: "rows ?S = [sent_row, cfp_row, overdue_row, first_row]"
    by (simp add: sheet_of_def)
  have flags: "emailed sent_row = 1" "emailed cfp_row = 0" "emailed overdue_row = 0"
    "emailed first_row = 0"
    by (simp_all add: sent_row_def cfp_row_def overdue_row_def first_row_def)
  have g1: "getUnemailedEntries_sheets (node 0) no_fault ?S =
      Inr [overdue_row, cfp_row, first_row]"
    by (simp add: getUnemailedEntries_sheets_def no_fault_def rows flags js_sort_def p1 p2 p3)
  have v1: "\<forall>r \<in> set (rows ?S). emailed r = 0 \<longrightarrow>
      parseDate (node 0) (event_date r) \<noteq> InvalidDate"
    by (simp add: rows flags p1 p2 p3)
  have g2: "getUnemailedEntries_sqlite no_fault ?D = Inr [overdue, cfp]"
    by (simp add: getUnemailedEntries_sqlite_def no_fault_def db_of_def sent_entry_def
        cfp_def overdue_def)
  have v2: "\<forall>a \<in> set [overdue, cfp]. \<forall>b \<in> set [overdue, cfp].
      event_date a \<le> event_date b \<longrightarrow>
      date_le (parseDate (node 0) (event_date a)) (parseDate (node 0) (event_date b))"
    by (simp add: p4 p5) (simp add: cfp_def overdue_def)
  have s1: "shouldSend_sheets (node 0) (nine_am 0) (getLastEmailSent_sheets ?S)
      [overdue_row, cfp_row, first_row]"
    by (simp add: shouldSend_sheets_def conditionC_sheets_def getLastEmailSent_sheets_def
        sheet_of_def)
  have s2: "shouldSend_sqlite (node 0) (nine_am 0)
      (getLastEmailSent_sqlite (node 0) no_fault ?D) [overdue, cfp]"
    by (simp add: shouldSend_sqlite_def conditionC_sqlite_def getLastEmailSent_sqlite_def
        db_of_def no_fault_def)
  note main = digest_holds_pending_by_date [where P = "node 0" and clock = nine_am
      and f' = no_fault and s = ?S and rs = "[overdue_row, cfp_row, first_row]"
      and f = no_fault and d = ?D and qs = "[overdue, cfp]" and g = no_preview
      and send = "\<lambda>m. Delivered" and send' = "\<lambda>m. Delivered"]
  from main g1 v1 have st: "filter (\<lambda>e. parseDate (node 0) (event_date e) = D)
       [overdue_row, cfp_row, first_row] =
     filter (\<lambda>e. parseDate (node 0) (event_date e) = D)
       (filter (\<lambda>r. emailed r = 0) (rows ?S))" for D
    by blast
  from main g1 v1 have so: "sorted_wrt (\<lambda>a b. date_le (parseDate (node 0) (event_date a))
       (parseDate (node 0) (event_date b))) [overdue_row, cfp_row, first_row]"
    by blast
  from main g2 v2 have so2: "sorted_wrt (\<lambda>a b. date_le (parseDate (node 0) (event_date a))
       (parseDate (node 0) (event_date b))) [overdue, cfp]"
    by blast
  from main g1 s1 have c1: "fst (snd (evaluateAndSend_sheets (node 0) no_fault no_preview
       (\<lambda>m. Delivered) nine_am ?S)) =
     [digest_sheets (node 0) no_preview (nine_am 1) [overdue_row, cfp_row, first_row]] \<and>
     map entry_id (items (digest_sheets (node 0) no_preview (nine_am 1)
       [overdue_row, cfp_row, first_row])) = map entry_id [overdue_row, cfp_row, first_row]"
    by blast
  from main g2 s2 have c2: "fst (snd (evaluateAndSend_sqlite (node 0) no_fault no_preview
       (\<lambda>m. Delivered) nine_am ?D)) =
     [digest_sqlite (node 0) no_preview (nine_am 1) [overdue, cfp]] \<and>
     map entry_id (items (digest_sqlite (node 0) no_preview (nine_am 1) [overdue, cfp])) =
     map entry_id [overdue, cfp]"
    by blast
  from main g1 have m1: "mset [overdue_row, cfp_row, first_row] =
      mset (filter (\<lambda>r. emailed r = 0) (rows ?S))"
    by blast
  from main g2 have m2: "mset [overdue, cfp] =
      mset (filter (\<lambda>e. emailed e = 0) (entries ?D))"
    by blast
  have tx: "event_date overdue \<le> event_date cfp \<and> \<not> event_date cfp \<le> event_date overdue"
    by (simp add: cfp_def overdue_def)
  from g1 p1 p2 p3 m1 so st [of "DateAt 1736640000000"] g2 p4 p5 m2 tx so2 s1 c1 s2 c2
  show ?thesis by blast
qed

text \<open>
  C5 as stated fails in two ways. Two pending rows of the sheet for 12 January, the
  row with the later id above the other: the verdict is true, the digest goes out, and
  it lists the later id first. Two pending rows of the table with the date texts
  \<open>2025-02-30\<close> and \<open>2025-03-01\<close>, both accepted by the endpoint: the query orders the
  texts, the digest goes out, and it lists 2 March before 1 March.
\<close>

theorem digest_ties_not_by_id:
  "fst (snd (evaluateAndSend_sheets (node 0) no_fault no_preview (\<lambda>m. Delivered) nine_am
       (sheet_of [second_row, first_row] None))) =
     [digest_sheets (node 0) no_preview (nine_am 1) [second_row, first_row]] \<and>
   shouldSend_sheets (node 0) (nine_am 0) None [second_row, first_row] \<and>
   map entry_id (items (digest_sheets (node 0) no_preview (nine_am 1)
       [second_row, first_row])) = [''1736000000002'', ''1736000000001''] \<and>
   map event_date (items (digest_sheets (node 0) no_preview (nine_am 1)
       [second_row, first_row])) = [''2025-01-12'', ''2025-01-12''] \<and>
   \<not> spec_order (node 0)
       (items (digest_sheets (node 0) no_preview (nine_am 1) [second_row, first_row])) \<and>
   snd (submit_sqlite (node 0) no_fault nine_am empty_db feb30_request) = Success 1 \<and>
   fst (snd (evaluateAndSend_sqlite (node 0) no_fault no_preview (\<lambda>m. Delivered) nine_am
       (db_of [feb30, mar1] None))) =
     [digest_sqlite (node 0) no_preview (nine_am 1) [feb30, mar1]] \<and>
   shouldSend_sqlite (node 0) (nine_am 0) None [feb30, mar1] \<and>
   map event_date (items (digest_sqlite (node 0) no_preview (nine_am 1) [feb30, mar1])) =
     [''2025-02-30'', ''2025-03-01''] \<and>
   parseDate (node 0) ''2025-02-30'' = DateAt (days_from_civil 2025 3 2 * 86400000) \<and>
   parseDate (node 0) ''2025-03-01'' = DateAt (days_from_civil 2025 3 1 * 86400000) \<and>
   \<not> spec_order (node 0)
       (items (digest_sqlite (node 0) no_preview (nine_am 1) [feb30, mar1]))"
proof -
  let ?S = "sheet_of [second_row, first_row] None"
  let ?D = "db_of [feb30, mar1] None"
  have q: "parseDate (node 0) ''2025-02-30'' = DateAt 1740873600000"
    "parseDate (node 0) ''2025-03-01'' = DateAt 1740787200000"
    by (simp_all add: node_simps)
  have q': "parseDate (node 0) ''2025-02-30'' = DateAt (days_from_civil 2025 3 2 * 86400000)"
    "parseDate (node 0) ''2025-03-01'' = DateAt (days_from_civil 2025 3 1 * 86400000)"
    by (simp_all add: q days_from_civil_def)
  have tu: "js_trim ''https://dh.example/workshop'' = ''https://dh.example/workshop''"
    by (simp add: js_trim_def is_space_def)
  have np: "\<not> date_in_past (node 0) (nine_am 0) ''2025-02-30''"
    by (simp add: date_in_past_def q nine_am_def)
  have acc: "snd (submit_sqlite (node 0) no_fault nine_am empty_db feb30_request) = Success 1"
    by (simp add: submit_sqlite_def feb30_request_def tu np insert_sqlite_def no_fault_def
        empty_db_def Let_def)
  have gq: "getUnemailedEntries_sqlite no_fault ?D = Inr [feb30, mar1]"
    by (simp add: getUnemailedEntries_sqlite_def no_fault_def db_of_def feb30_def mar1_def)
  have vq: "shouldSend_sqlite (node 0) (nine_am 0) None [feb30, mar1]"
    by (simp add: shouldSend_sqlite_def conditionC_sqlite_def)
  have lq: "getLastEmailSent_sqlite (node 0) no_fault ?D = None"
    by (simp add: getLastEmailSent_sqlite_def db_of_def no_fault_def)
  have outq: "fst (snd (evaluateAndSend_sqlite (node 0) no_fault no_preview (\<lambda>m. Delivered)
      nine_am ?D)) = [digest_sqlite (node 0) no_preview (nine_am 1) [feb30, mar1]]"
    using vq by (simp add: cycle_sqlite [OF gq] lq delivered_out_sqlite)
  have itq: "items (digest_sqlite (node 0) no_preview (nine_am 1) [feb30, mar1]) =
      [enrich_sqlite no_preview feb30, enrich_sqlite no_preview mar1]"
    by (simp add: digest_sqlite_def)
  have datesq: "map event_date (items (digest_sqlite (node 0) no_preview (nine_am 1)
      [feb30, mar1])) = [''2025-02-30'', ''2025-03-01'']"
    by (simp add: digest_keeps_entries feb30_def mar1_def)
  have eq: "event_date (enrich_sqlite no_preview feb30) = ''2025-02-30''"
    "event_date (enrich_sqlite no_preview mar1) = ''2025-03-01''"
    by (simp_all add: enrich_sqlite_def no_preview_def feb30_def mar1_def)
  have noq: "\<not> spec_order (node 0)
      (items (digest_sqlite (node 0) no_preview (nine_am 1) [feb30, mar1]))"
    unfolding itq by (simp add: spec_order_def eq q)
  have p: "parseDate (node 0) (event_date second_row) = DateAt 1736640000000"
    "parseDate (node 0) (event_date first_row) = DateAt 1736640000000"
    by (simp_all add: second_row_def first_row_def node_simps)
  have flags: "emailed second_row = 0" "emailed first_row = 0"
    by (simp_all add: second_row_def first_row_def)
  have g: "getUnemailedEntries_sheets (node 0) no_fault ?S = Inr [second_row, first_row]"
    by (simp add: getUnemailedEntries_sheets_def no_fault_def sheet_of_def flags js_sort_def p)
  have v: "shouldSend_sheets (node 0) (nine_am 0) None [second_row, first_row]"
    by (simp add: shouldSend_sheets_def conditionC_sheets_def)
  have l: "getLastEmailSent_sheets ?S = None"
    by (simp add: getLastEmailSent_sheets_def sheet_of_def)
  have out: "fst (snd (evaluateAndSend_sheets (node 0) no_fault no_preview (\<lambda>m. Delivered)
      nine_am ?S)) = [digest_sheets (node 0) no_preview (nine_am 1) [second_row, first_row]]"
    using v by (simp add: cycle_sheets [OF g] l delivered_out_sheets)
  have it: "items (digest_sheets (node 0) no_preview (nine_am 1) [second_row, first_row]) =
      [enrich_sheets no_preview second_row, enrich_sheets no_preview first_row]"
    by (simp add: digest_sheets_def)
  have ids: "map entry_id (items (digest_sheets (node 0) no_preview (nine_am 1)
      [second_row, first_row])) = [''1736000000002'', ''1736000000001'']"
    by (simp add: digest_keeps_entries second_row_def first_row_def)
  have dates: "map event_date (items (digest_sheets (node 0) no_preview (nine_am 1)
      [second_row, first_row])) = [''2025-01-12'', ''2025-01-12'']"
    by (simp add: digest_keeps_entries second_row_def first_row_def)
  have e: "event_date (enrich_sheets no_preview second_row) = event_date second_row"
    "event_date (enrich_sheets no_preview first_row) = event_date first_row"
    "entry_id (enrich_sheets no_preview second_row) = ''1736000000002''"
    "entry_id (enrich_sheets no_preview first_row) = ''1736000000001''"
    by (simp_all add: enrich_sheets_def no_preview_def second_row_def first_row_def)
  have no: "\<not> spec_order (node 0)
      (items (digest_sheets (node 0) no_preview (nine_am 1) [second_row, first_row]))"
    unfolding it by (simp add: spec_order_def e p)
  from out v ids dates no acc outq vq datesq q' noq show ?thesis by blast
qed

section \<open>Submissions\<close>

lemma js_trim_surrounded:
  assumes "\<forall>c \<in> set a. is_space c" and "\<forall>c \<in> set b. is_space c"
  shows "js_trim (a @ u @ b) = js_trim u"
proof -
  have front: "dropWhile is_space (a @ u @ b) = dropWhile is_space (u @ b)"
    by (rule dropWhile_append2) (use assms(1) in simp)
  show ?thesis
  proof (cases "\<forall>c \<in> set u. is_space c")
    case True
    with assms(2) have "\<forall>c \<in> set (u @ b). is_space c" by auto
    then have ub: "dropWhile is_space (u @ b) = []"
      by (simp only: dropWhile_eq_Nil_conv)
    have l: "js_trim (a @ u @ b) = []"
      unfolding js_trim_def front ub by simp
    from True have uu: "dropWhile is_space u = []"
      by (simp only: dropWhile_eq_Nil_conv)
    have "js_trim u = []"
      unfolding js_trim_def uu by simp
    with l show ?thesis by simp
  next
    case False
    then obtain c where "c \<in> set u" "\<not> is_space c" by blast
    then have ub: "dropWhile is_space (u @ b) = dropWhile is_space u @ b"
      by (simp add: dropWhile_append1)
    have rear: "dropWhile is_space (rev b @ rev (dropWhile is_space u)) =
        dropWhile is_space (rev (dropWhile is_space u))"
      by (rule dropWhile_append2) (use assms(2) in simp)
    show ?thesis
      unfolding js_trim_def front ub rev_append rear by (rule refl)
  qed
qed

lemma submit_sqlite_trimmed:
  assumes "js_trim u2 = js_trim u1"
  shows "submit_sqlite P f clock d \<lparr>req_url = Some u1, req_date = x\<rparr> =
     submit_sqlite P f clock d \<lparr>req_url = Some u2, req_date = x\<rparr>"
  using assms by (simp add: submit_sqlite_def)

lemma submit_sheets_trimmed:
  assumes "js_trim u2 = js_trim u1"
  shows "submit_sheets P f clock s \<lparr>req_url = Some u1, req_date = x\<rparr> =
     submit_sheets P f clock s \<lparr>req_url = Some u2, req_date = x\<rparr>"
  using assms by (simp add: submit_sheets_def)

lemma submit_sqlite_stores:
  assumes "submit_sqlite P f clock d \<lparr>req_url = Some u1, req_date = Some dt1\<rparr> =
     (d', Success i)"
  shows "js_trim u1 \<noteq> [] \<and> url (last (entries d')) = js_trim u1 \<and>
     js_trim u1 \<in> set (map url (entries d'))"
  using assms
  by (auto simp: submit_sqlite_def insert_sqlite_def Let_def
      split: if_splits sum.splits sqlite_error.splits)

lemma submit_sheets_stores:
  assumes "submit_sheets P f clock s \<lparr>req_url = Some u1, req_date = Some dt1\<rparr> =
     (s', Success i)"
  shows "js_trim u1 \<noteq> [] \<and> url (last (rows s')) = js_trim u1 \<and>
     js_trim u1 \<in> set (map url (rows s'))"
  using assms
  by (auto simp: submit_sheets_def Let_def split: if_splits)

text \<open>
  C10. Both endpoints trim the url first and use the trimmed text alone: the response
  and the new state are the same for two urls with the same trimmed text, and blanks
  around a url do not change its trimmed text. An accepted url is stored trimmed. So
  after an accepted submission, a second one whose url has the same trimmed text, with a
  date that passes the checks and with the store answering, is turned down with 409
  and leaves the store as it is.
\<close>

theorem surrounding_whitespace_is_ignored:
  "((\<forall>c \<in> set a. is_space c) \<and> (\<forall>c \<in> set b. is_space c) \<longrightarrow>
      js_trim (a @ u @ b) = js_trim u) \<and>
   (js_trim u2 = js_trim u1 \<longrightarrow>
      submit_sqlite P f clock d \<lparr>req_url = Some u1, req_date = x\<rparr> =
        submit_sqlite P f clock d \<lparr>req_url = Some u2, req_date = x\<rparr> \<and>
      submit_sheets P f' clock s \<lparr>req_url = Some u1, req_date = x\<rparr> =
        submit_sheets P f' clock s \<lparr>req_url = Some u2, req_date = x\<rparr>) \<and>
   (submit_sqlite P f clock d \<lparr>req_url = Some u1, req_date = Some dt1\<rparr> = (d', Success i) \<longrightarrow>
      url (last (entries d')) = js_trim u1) \<and>
   (submit_sheets P f' clock s \<lparr>req_url = Some u1, req_date = Some dt1\<rparr> = (s', Success j) \<longrightarrow>
      url (last (rows s')) = js_trim u1) \<and>
   (submit_sqlite P f clock d \<lparr>req_url = Some u1, req_date = Some dt1\<rparr> = (d', Success i) \<and>
      js_trim u2 = js_trim u1 \<and> dt2 \<noteq> [] \<and> \<not> date_in_past P (clock2 0) dt2 \<and>
      \<not> f2 InsertEntry \<longrightarrow>
      submit_sqlite P f2 clock2 d' \<lparr>req_url = Some u2, req_date = Some dt2\<rparr> =
        (d', Status 409 ''URL already submitted'')) \<and>
   (submit_sheets P f' clock s \<lparr>req_url = Some u1, req_date = Some dt1\<rparr> = (s', Success j) \<and>
      js_trim u2 = js_trim u1 \<and> dt2 \<noteq> [] \<and> \<not> date_in_past P (clock2 0) dt2 \<and>
      \<not> f2' GetUrls \<longrightarrow>
      submit_sheets P f2' clock2 s' \<lparr>req_url = Some u2, req_date = Some dt2\<rparr> =
        (s', Status 409 ''URL already submitted''))"
proof (intro conjI impI)
  assume "(\<forall>c \<in> set a. is_space c) \<and> (\<forall>c \<in> set b. is_space c)"
  then show "js_trim (a @ u @ b) = js_trim u"
    by (simp add: js_trim_surrounded)
next
  assume "js_trim u2 = js_trim u1"
  then show "submit_sqlite P f clock d \<lparr>req_url = Some u1, req_date = x\<rparr> =
      submit_sqlite P f clock d \<lparr>req_url = Some u2, req_date = x\<rparr>"
    and "submit_sheets P f' clock s \<lparr>req_url = Some u1, req_date = x\<rparr> =
      submit_sheets P f' clock s \<lparr>req_url = Some u2, req_date = x\<rparr>"
    by (rule submit_sqlite_trimmed, rule submit_sheets_trimmed)
next
  assume "submit_sqlite P f clock d \<lparr>req_url = Some u1, req_date = Some dt1\<rparr> =
      (d', Success i)"
  then show "url (last (entries d')) = js_trim u1"
    using submit_sqlite_stores by blast
next
  assume "submit_sheets P f' clock s \<lparr>req_url = Some u1, req_date = Some dt1\<rparr> =
      (s', Success j)"
  then show "url (last (rows s')) = js_trim u1"
    using submit_sheets_stores by blast
next
  assume h: "submit_sqlite P f clock d \<lparr>req_url = Some u1, req_date = Some dt1\<rparr> =
      (d', Success i) \<and>
      js_trim u2 = js_trim u1 \<and> dt2 \<noteq> [] \<and> \<not> date_in_past P (clock2 0) dt2 \<and>
      \<not> f2 InsertEntry"
  then have "js_trim u1 \<noteq> [] \<and> js_trim u1 \<in> set (map url (entries d'))"
    using submit_sqlite_stores by blast
  with h show "submit_sqlite P f2 clock2 d' \<lparr>req_url = Some u2, req_date = Some dt2\<rparr> =
      (d', Status 409 ''URL already submitted'')"
    by (simp add: submit_sqlite_def insert_sqlite_def)
next
  assume h: "submit_sheets P f' clock s \<lparr>req_url = Some u1, req_date = Some dt1\<rparr> =
      (s', Success j) \<and>
      js_trim u2 = js_trim u1 \<and> dt2 \<noteq> [] \<and> \<not> date_in_past P (clock2 0) dt2 \<and>
      \<not> f2' GetUrls"
  then have "js_trim u1 \<noteq> [] \<and> js_trim u1 \<in> set (map url (rows s'))"
    using submit_sheets_stores by blast
  with h show "submit_sheets P f2' clock2 s' \<lparr>req_url = Some u2, req_date = Some dt2\<rparr> =
      (s', Status 409 ''URL already submitted'')"
    by (simp add: submit_sheets_def)
qed

text \<open>
  The call for papers is accepted at nine; the same url with two blanks before it and a
  blank and a tab after it, for the day after, is then turned down.
\<close>

lemma node_fields:
  "parseDate (node z) = parse_iso" "toISOString (node z) = iso_text"
  "current_timestamp (node z) = sql_text" "tzOffset (node z) = z"
  by (simp_all add: node_def)

theorem surrounding_whitespace_is_ignored_witness:
  "(is_space (CHR 0x20) \<and> is_space (CHR 0x09)) \<and>
   js_trim ([CHR 0x20, CHR 0x20] @ ''https://dh.example/cfp'' @ [CHR 0x20, CHR 0x09]) =
     js_trim ''https://dh.example/cfp'' \<and>
   js_trim ''https://dh.example/cfp'' = ''https://dh.example/cfp'' \<and>
   submit_sqlite (node 0) no_fault nine_am empty_db plain_request = (stored_db, Success 1) \<and>
   submit_sheets (node 0) no_fault nine_am empty_sheet plain_request =
     (stored_sheet, Success (toString (nine_am 1))) \<and>
   url (last (entries stored_db)) = js_trim ''https://dh.example/cfp'' \<and>
   url (last (rows stored_sheet)) = js_trim ''https://dh.example/cfp'' \<and>
   (''2025-01-13'' \<noteq> [] \<and> \<not> date_in_past (node 0) (nine_am 0) ''2025-01-13'' \<and>
      \<not> no_fault InsertEntry \<and> \<not> no_fault GetUrls) \<and>
   submit_sqlite (node 0) no_fault nine_am stored_db padded_request =
     (stored_db, Status 409 ''URL already submitted'') \<and>
   submit_sheets (node 0) no_fault nine_am stored_sheet padded_request =
     (stored_sheet, Status 409 ''URL already submitted'')"
proof -
  let ?u = "''https://dh.example/cfp''"
  let ?a = "[CHR 0x20, CHR 0x20]"
  let ?b = "[CHR 0x20, CHR 0x09]"
  have sp: "is_space (CHR 0x20) \<and> is_space (CHR 0x09)"
    by (simp add: is_space_def)
  then have ws: "(\<forall>c \<in> set ?a. is_space c) \<and> (\<forall>c \<in> set ?b. is_space c)"
    by simp
  have tu: "js_trim ?u = ?u"
    by (simp add: js_trim_def is_space_def)
  note main = surrounding_whitespace_is_ignored [where P = "node 0" and a = ?a and b = ?b
      and u = ?u and ?u1.0 = ?u and ?u2.0 = "?a @ ?u @ ?b" and x = "Some ''2025-01-12''"
      and ?dt1.0 = "''2025-01-12''" and ?dt2.0 = "''2025-01-13''" and clock = nine_am
      and ?clock2.0 = nine_am and f = no_fault and f' = no_fault and ?f2.0 = no_fault
      and f2' = no_fault and d = empty_db and s = empty_sheet and d' = stored_db
      and s' = stored_sheet and i = 1 and j = "toString (nine_am 1)"]
  from main ws have t1: "js_trim (?a @ ?u @ ?b) = js_trim ?u"
    by blast
  have ok: "\<not> date_in_past (node 0) (nine_am 0) ''2025-01-12''"
    by (simp add: date_in_past_def nine_am_def node_simps)
  have a1: "submit_sqlite (node 0) no_fault nine_am empty_db
      \<lparr>req_url = Some ?u, req_date = Some ''2025-01-12''\<rparr> = (stored_db, Success 1)"
    by (simp add: submit_sqlite_def tu ok insert_sqlite_def no_fault_def empty_db_def
        stored_db_def node_fields Let_def)
  have a2: "submit_sheets (node 0) no_fault nine_am empty_sheet
      \<lparr>req_url = Some ?u, req_date = Some ''2025-01-12''\<rparr> =
      (stored_sheet, Success (toString (nine_am 1)))"
    by (simp add: submit_sheets_def tu ok no_fault_def empty_sheet_def stored_sheet_def
        node_fields Let_def)
  have h: "''2025-01-13'' \<noteq> [] \<and> \<not> date_in_past (node 0) (nine_am 0) ''2025-01-13'' \<and>
      \<not> no_fault InsertEntry \<and> \<not> no_fault GetUrls"
    by (simp add: date_in_past_def nine_am_def node_simps no_fault_def)
  from main a1 have b1: "url (last (entries stored_db)) = js_trim ?u"
    by blast
  from main a2 have b2: "url (last (rows stored_sheet)) = js_trim ?u"
    by blast
  from main a1 t1 h have c1: "submit_sqlite (node 0) no_fault nine_am stored_db
      \<lparr>req_url = Some (?a @ ?u @ ?b), req_date = Some ''2025-01-13''\<rparr> =
      (stored_db, Status 409 ''URL already submitted'')"
    by blast
  from main a2 t1 h have c2: "submit_sheets (node 0) no_fault nine_am stored_sheet
      \<lparr>req_url = Some (?a @ ?u @ ?b), req_date = Some ''2025-01-13''\<rparr> =
      (stored_sheet, Status 409 ''URL already submitted'')"
    by blast
  from sp t1 tu a1 a2 b1 b2 h c1 c2 show ?thesis
    unfolding plain_request_def padded_request_def by blast
qed

section \<open>The check of the submitted date\<close>

text \<open>
  The check compares the starts of two local days. For a date text that parses to
  midnight UTC of the day numbered \<open>day\<close>, as the form \<open>YYYY-MM-DD\<close> does, it compares
  \<open>day\<close>, moved by the whole days in the offset, with the local day of now.
\<close>

lemma start_of_local_day:
  "setHours0 P (DateAt t) =
     DateAt ((t + tzOffset P) div 86400000 * 86400000 - tzOffset P)"
proof -
  have "t - (t + z) mod 86400000 = (t + z) div 86400000 * 86400000 - z" for z :: int
    by (simp add: algebra_simps minus_mod_eq_div_mult [symmetric])
  then show ?thesis by simp
qed

lemma date_in_past_days:
  assumes "parseDate P date = DateAt (day * 86400000)"
  shows "date_in_past P now date =
     (day + tzOffset P div 86400000 < (now + tzOffset P) div 86400000)"
proof -
  have d: "(day * 86400000 + tzOffset P) div 86400000 = day + tzOffset P div 86400000"
    by simp
  have cancel: "(a * 86400000 - z < b * 86400000 - z) = (a < b)" for a b z :: int
    by simp
  have "date_in_past P now date =
      ((day * 86400000 + tzOffset P) div 86400000 * 86400000 - tzOffset P
        < (now + tzOffset P) div 86400000 * 86400000 - tzOffset P)"
    by (simp only: date_in_past_def Let_def assms start_of_local_day date_lt.simps)
  also have "\<dots> = ((day * 86400000 + tzOffset P) div 86400000
      < (now + tzOffset P) div 86400000)"
    by (rule cancel)
  finally show ?thesis by (simp only: d)
qed

text \<open>East of UTC, up to a day, the check is the comparison of calendar days.\<close>

lemma date_in_past_east:
  assumes "parseDate P date = DateAt (day * 86400000)"
    and "0 \<le> tzOffset P" and "tzOffset P < 86400000"
  shows "date_in_past P now date = (day < (now + tzOffset P) div 86400000)"
  using assms by (simp add: date_in_past_days)

text \<open>West of UTC it turns down the local day of now as well.\<close>

lemma date_in_past_west:
  assumes "parseDate P date = DateAt (day * 86400000)"
    and "- 86400000 \<le> tzOffset P" and "tzOffset P < 0"
  shows "date_in_past P now date = (day \<le> (now + tzOffset P) div 86400000)"
proof -
  from assms(2,3) have "(tzOffset P + 86400000) div 86400000 = 0"
    by (intro div_pos_pos_trivial) simp_all
  moreover have "(tzOffset P + 86400000) div 86400000 = tzOffset P div 86400000 + 1"
    by simp
  ultimately have "tzOffset P div 86400000 = - 1"
    by linarith
  with date_in_past_days [OF assms(1), of now] show ?thesis
    by auto
qed

text \<open>
  C8 fails on the code. The server runs five hours west of UTC, it is noon of
  2025-01-10 there (the local day of now is the day of that date), and a request for that
  day arrives with a url that is not stored: both endpoints answer 400 "Date cannot be
  in the past", where the date is not before today and the claim has the entry stored.
  At offset 0 the same request is accepted.
\<close>

theorem today_is_turned_down_west_of_utc:
  "(noon_west 0 + (- 18000000)) div 86400000 = days_from_civil 2025 1 10 \<and>
   parseDate (node (- 18000000)) ''2025-01-10'' =
     DateAt (days_from_civil 2025 1 10 * 86400000) \<and>
   submit_sqlite (node (- 18000000)) no_fault noon_west empty_db today_request =
     (empty_db, Status 400 ''Date cannot be in the past'') \<and>
   submit_sheets (node (- 18000000)) no_fault noon_west empty_sheet today_request =
     (empty_sheet, Status 400 ''Date cannot be in the past'') \<and>
   snd (submit_sqlite (node 0) no_fault noon_west empty_db today_request) = Success 1 \<and>
   snd (submit_sheets (node 0) no_fault noon_west empty_sheet today_request) =
     Success (toString (noon_west 1))"
proof -
  have tu: "js_trim ''https://dh.example/cfp'' = ''https://dh.example/cfp''"
    by (simp add: js_trim_def is_space_def)
  have day: "days_from_civil 2025 1 10 = 20098"
    by (simp add: days_from_civil_def)
  have local: "(noon_west 0 + (- 18000000)) div 86400000 = days_from_civil 2025 1 10"
    by (simp add: noon_west_def day)
  have p: "parseDate (node z) ''2025-01-10'' = DateAt (20098 * 86400000)" for z
    by (simp add: node_simps)
  have west: "date_in_past (node (- 18000000)) (noon_west 0) ''2025-01-10''"
    by (simp add: date_in_past_west [OF p] node_fields noon_west_def)
  have utc: "\<not> date_in_past (node 0) (noon_west 0) ''2025-01-10''"
    by (simp add: date_in_past_east [OF p] node_fields noon_west_def)
  have r1: "submit_sqlite (node (- 18000000)) no_fault noon_west empty_db today_request =
      (empty_db, Status 400 ''Date cannot be in the past'')"
    by (simp add: submit_sqlite_def today_request_def tu west)
  have r2: "submit_sheets (node (- 18000000)) no_fault noon_west empty_sheet today_request =
      (empty_sheet, Status 400 ''Date cannot be in the past'')"
    by (simp add: submit_sheets_def today_request_def tu west)
  have r3: "snd (submit_sqlite (node 0) no_fault noon_west empty_db today_request) = Success 1"
    by (simp add: submit_sqlite_def today_request_def tu utc insert_sqlite_def no_fault_def
        empty_db_def Let_def)
  have r4: "snd (submit_sheets (node 0) no_fault noon_west empty_sheet today_request) =
      Success (toString (noon_west 1))"
    by (simp add: submit_sheets_def today_request_def tu utc no_fault_def empty_sheet_def
        Let_def)
  have p': "parseDate (node (- 18000000)) ''2025-01-10'' =
      DateAt (days_from_civil 2025 1 10 * 86400000)"
    by (simp only: p day)
  from local p' r1 r2 r3 r4 show ?thesis by blast
qed

end
